theory Spec2Isabelle
  imports Main "HOL-Library.Word"
begin

unbundle bit_operations_syntax

section \<open>Data model\<close>

text \<open>
  The session layer of \<^verbatim>\<open>src/ChannelImpl.cpp\<close>, as state passing over a record of
  the members of \<^verbatim>\<open>Channel::ChannelImpl\<close>.  The frame transport (librabbitmq) is an
  external collaborator; it appears as the record \<open>amqp_connection_state_t\<close>, which holds
  what the calls made by the file read and write: the negotiated channel-max, the server
  properties, the status codes of the sends still to come, a log of the methods sent,
  the frames not yet read and a log of the buffer-release hints.
\<close>

type_synonym amqp_channel_t = "16 word"

type_synonym amqp_method_number_t = "32 word"

type_synonym amqp_bytes_t = string

datatype amqp_field_value_t = FieldBytes (bytes: amqp_bytes_t) | FieldOther

type_synonym amqp_table_t = "(amqp_bytes_t \<times> amqp_field_value_t) list"

text \<open>The decoded methods that the file names, one constructor per method.\<close>

datatype amqp_method =
    Connection_Close (reply_code: "16 word") (reply_text: amqp_bytes_t)
      (class_id: "16 word") (method_id: "16 word")
  | Connection_Close_Ok
  | Channel_Open
  | Channel_Open_Ok
  | Channel_Close (reply_code: "16 word") (reply_text: amqp_bytes_t)
      (class_id: "16 word") (method_id: "16 word")
  | Channel_Close_Ok
  | Confirm_Select
  | Confirm_Select_Ok
  | Basic_Cancel (consumer_tag: amqp_bytes_t)
  | Basic_Return (reply_code: "16 word") (reply_text: amqp_bytes_t)
      (exchange: amqp_bytes_t) (routing_key: amqp_bytes_t)
  | Basic_Deliver (consumer_tag: amqp_bytes_t) (delivery_tag: "64 word")
      (redelivered: bool) (exchange: amqp_bytes_t) (routing_key: amqp_bytes_t)
  | Basic_Ack (delivery_tag: "64 word") (multiple: bool)
  | Basic_Nack (delivery_tag: "64 word") (multiple: bool) (requeue: bool)

definition AMQP_CONNECTION_CLOSE_METHOD :: amqp_method_number_t where
  "AMQP_CONNECTION_CLOSE_METHOD = 0x000A0032"

definition AMQP_CONNECTION_CLOSE_OK_METHOD :: amqp_method_number_t where
  "AMQP_CONNECTION_CLOSE_OK_METHOD = 0x000A0033"

definition AMQP_CHANNEL_OPEN_METHOD :: amqp_method_number_t where
  "AMQP_CHANNEL_OPEN_METHOD = 0x0014000A"

definition AMQP_CHANNEL_OPEN_OK_METHOD :: amqp_method_number_t where
  "AMQP_CHANNEL_OPEN_OK_METHOD = 0x0014000B"

definition AMQP_CHANNEL_CLOSE_METHOD :: amqp_method_number_t where
  "AMQP_CHANNEL_CLOSE_METHOD = 0x00140028"

definition AMQP_CHANNEL_CLOSE_OK_METHOD :: amqp_method_number_t where
  "AMQP_CHANNEL_CLOSE_OK_METHOD = 0x00140029"

definition AMQP_CONFIRM_SELECT_METHOD :: amqp_method_number_t where
  "AMQP_CONFIRM_SELECT_METHOD = 0x0055000A"

definition AMQP_CONFIRM_SELECT_OK_METHOD :: amqp_method_number_t where
  "AMQP_CONFIRM_SELECT_OK_METHOD = 0x0055000B"

definition AMQP_BASIC_CANCEL_METHOD :: amqp_method_number_t where
  "AMQP_BASIC_CANCEL_METHOD = 0x003C001E"

definition AMQP_BASIC_RETURN_METHOD :: amqp_method_number_t where
  "AMQP_BASIC_RETURN_METHOD = 0x003C0032"

definition AMQP_BASIC_DELIVER_METHOD :: amqp_method_number_t where
  "AMQP_BASIC_DELIVER_METHOD = 0x003C003C"

definition AMQP_BASIC_ACK_METHOD :: amqp_method_number_t where
  "AMQP_BASIC_ACK_METHOD = 0x003C0050"

definition AMQP_BASIC_NACK_METHOD :: amqp_method_number_t where
  "AMQP_BASIC_NACK_METHOD = 0x003C0078"

text \<open>\<^verbatim>\<open>payload.method.id\<close>: the number the transport's decoder stores beside the
  decoded method (\<open>id\<close> is the identity function of HOL, hence the longer name).\<close>

fun method_number :: "amqp_method \<Rightarrow> amqp_method_number_t" where
  "method_number (Connection_Close _ _ _ _) = AMQP_CONNECTION_CLOSE_METHOD"
| "method_number Connection_Close_Ok = AMQP_CONNECTION_CLOSE_OK_METHOD"
| "method_number Channel_Open = AMQP_CHANNEL_OPEN_METHOD"
| "method_number Channel_Open_Ok = AMQP_CHANNEL_OPEN_OK_METHOD"
| "method_number (Channel_Close _ _ _ _) = AMQP_CHANNEL_CLOSE_METHOD"
| "method_number Channel_Close_Ok = AMQP_CHANNEL_CLOSE_OK_METHOD"
| "method_number Confirm_Select = AMQP_CONFIRM_SELECT_METHOD"
| "method_number Confirm_Select_Ok = AMQP_CONFIRM_SELECT_OK_METHOD"
| "method_number (Basic_Cancel _) = AMQP_BASIC_CANCEL_METHOD"
| "method_number (Basic_Return _ _ _ _) = AMQP_BASIC_RETURN_METHOD"
| "method_number (Basic_Deliver _ _ _ _ _) = AMQP_BASIC_DELIVER_METHOD"
| "method_number (Basic_Ack _ _) = AMQP_BASIC_ACK_METHOD"
| "method_number (Basic_Nack _ _ _) = AMQP_BASIC_NACK_METHOD"

text \<open>\<^verbatim>\<open>amqp_basic_properties_t\<close>: the presence flags and the fourteen fields.\<close>

record amqp_basic_properties_t =
  flags :: "32 word"
  content_type :: amqp_bytes_t
  content_encoding :: amqp_bytes_t
  headers :: amqp_table_t
  delivery_mode :: "8 word"
  priority :: "8 word"
  correlation_id :: amqp_bytes_t
  reply_to :: amqp_bytes_t
  expiration :: amqp_bytes_t
  message_id :: amqp_bytes_t
  timestamp :: "64 word"
  type_field :: amqp_bytes_t
  user_id :: amqp_bytes_t
  app_id :: amqp_bytes_t
  cluster_id :: amqp_bytes_t

definition AMQP_BASIC_CONTENT_TYPE_FLAG :: "32 word" where
  "AMQP_BASIC_CONTENT_TYPE_FLAG = push_bit 15 1"

definition AMQP_BASIC_CONTENT_ENCODING_FLAG :: "32 word" where
  "AMQP_BASIC_CONTENT_ENCODING_FLAG = push_bit 14 1"

definition AMQP_BASIC_HEADERS_FLAG :: "32 word" where
  "AMQP_BASIC_HEADERS_FLAG = push_bit 13 1"

definition AMQP_BASIC_DELIVERY_MODE_FLAG :: "32 word" where
  "AMQP_BASIC_DELIVERY_MODE_FLAG = push_bit 12 1"

definition AMQP_BASIC_PRIORITY_FLAG :: "32 word" where
  "AMQP_BASIC_PRIORITY_FLAG = push_bit 11 1"

definition AMQP_BASIC_CORRELATION_ID_FLAG :: "32 word" where
  "AMQP_BASIC_CORRELATION_ID_FLAG = push_bit 10 1"

definition AMQP_BASIC_REPLY_TO_FLAG :: "32 word" where
  "AMQP_BASIC_REPLY_TO_FLAG = push_bit 9 1"

definition AMQP_BASIC_EXPIRATION_FLAG :: "32 word" where
  "AMQP_BASIC_EXPIRATION_FLAG = push_bit 8 1"

definition AMQP_BASIC_MESSAGE_ID_FLAG :: "32 word" where
  "AMQP_BASIC_MESSAGE_ID_FLAG = push_bit 7 1"

definition AMQP_BASIC_TIMESTAMP_FLAG :: "32 word" where
  "AMQP_BASIC_TIMESTAMP_FLAG = push_bit 6 1"

definition AMQP_BASIC_TYPE_FLAG :: "32 word" where
  "AMQP_BASIC_TYPE_FLAG = push_bit 5 1"

definition AMQP_BASIC_USER_ID_FLAG :: "32 word" where
  "AMQP_BASIC_USER_ID_FLAG = push_bit 4 1"

definition AMQP_BASIC_APP_ID_FLAG :: "32 word" where
  "AMQP_BASIC_APP_ID_FLAG = push_bit 3 1"

definition AMQP_BASIC_CLUSTER_ID_FLAG :: "32 word" where
  "AMQP_BASIC_CLUSTER_ID_FLAG = push_bit 2 1"

text \<open>
  A frame is a channel id and a payload.  The C union and its \<^verbatim>\<open>frame_type\<close> tag are
  one tagged value here, so the tag is a function of the payload.
\<close>

datatype amqp_payload =
    Method (decoded_method: amqp_method)
  | Properties (body_size: "64 word") (decoded: amqp_basic_properties_t)
  | Body_fragment (body_fragment: amqp_bytes_t)
  | Heartbeat

record amqp_frame_t =
  channel :: amqp_channel_t
  payload :: amqp_payload

definition AMQP_FRAME_METHOD :: "8 word" where "AMQP_FRAME_METHOD = 1"

definition AMQP_FRAME_HEADER :: "8 word" where "AMQP_FRAME_HEADER = 2"

definition AMQP_FRAME_BODY :: "8 word" where "AMQP_FRAME_BODY = 3"

definition AMQP_FRAME_HEARTBEAT :: "8 word" where "AMQP_FRAME_HEARTBEAT = 8"

fun payload_type :: "amqp_payload \<Rightarrow> 8 word" where
  "payload_type (Method _) = AMQP_FRAME_METHOD"
| "payload_type (Properties _ _) = AMQP_FRAME_HEADER"
| "payload_type (Body_fragment _) = AMQP_FRAME_BODY"
| "payload_type Heartbeat = AMQP_FRAME_HEARTBEAT"

definition frame_type :: "amqp_frame_t \<Rightarrow> 8 word" where
  "frame_type frame = payload_type (payload frame)"

text \<open>\<^verbatim>\<open>BasicMessage\<close>: the body and the properties that have been set.\<close>

record BasicMessage =
  Body :: string
  ContentType :: "string option"
  ContentEncoding :: "string option"
  DeliveryMode :: "8 word option"
  Priority :: "8 word option"
  CorrelationId :: "string option"
  ReplyTo :: "string option"
  Expiration :: "string option"
  MessageId :: "string option"
  Timestamp :: "64 word option"
  Type :: "string option"
  UserId :: "string option"
  AppId :: "string option"
  ClusterId :: "string option"
  HeaderTable :: "amqp_table_t option"

definition BasicMessage_Create :: BasicMessage where
  "BasicMessage_Create =
     \<lparr>Body = [], ContentType = None, ContentEncoding = None, DeliveryMode = None,
      Priority = None, CorrelationId = None, ReplyTo = None, Expiration = None,
      MessageId = None, Timestamp = None, Type = None, UserId = None, AppId = None,
      ClusterId = None, HeaderTable = None\<rparr>"

text \<open>
  Modelled from the spec: the class \<^verbatim>\<open>Envelope\<close> is not among the sources.  An
  envelope is one reassembled delivery: the message with the fields of the
  \<^verbatim>\<open>basic.deliver\<close> it came with and its channel.
\<close>

record Envelope =
  Message :: BasicMessage
  ConsumerTag :: string
  DeliveryTag :: "64 word"
  Exchange :: string
  Redelivered :: bool
  RoutingKey :: string
  DeliveryChannel :: amqp_channel_t

text \<open>
  Modelled from the spec: \<^verbatim>\<open>channel_state_t\<close> is declared in
  \<^verbatim>\<open>ChannelImpl.h\<close>, which is not among the sources.  Its members are the ones the
  file reads and writes; the two counters have the width of a delivery tag, and a slot
  built from an availability alone starts with both counters 0 and no reply tag.
\<close>

datatype channel_availability = CS_Closed | CS_Open | CS_Used

record channel_state_t =
  availability :: channel_availability
  last_delivery_tag :: "64 word"
  unconsumed_ack :: "64 word"
  direct_reply_tag :: string

definition new_channel_state :: "channel_availability \<Rightarrow> channel_state_t" where
  "new_channel_state a =
     \<lparr>availability = a, last_delivery_tag = 0, unconsumed_ack = 0, direct_reply_tag = []\<rparr>"

text \<open>
  The connection of the transport.  The negotiated channel-max is a 16-bit field of the
  protocol, which \<^verbatim>\<open>amqp_get_channel_max\<close> returns as an \<^verbatim>\<open>int\<close>; a value of a
  server property is read as bytes whatever its kind.
\<close>

record amqp_connection_state_t =
  channel_max :: "16 word"
  server_properties :: amqp_table_t
  send_status :: "int list"
  sent_methods :: "(amqp_channel_t \<times> amqp_method) list"
  inbound :: "amqp_frame_t list"
  released_channels :: "amqp_channel_t list"

text \<open>The members of \<^verbatim>\<open>ChannelImpl\<close> that the functions below use; the consumer
  registry and the broker version kept after the login are left out.  The last field is
  not a member: \<open>free_store\<close> is the number of bytes that the free store of the
  process grants to one allocation, which decides whether a \<^verbatim>\<open>reserve\<close> of a body
  gets its buffer.\<close>

record ChannelImpl =
  m_connection :: amqp_connection_state_t
  m_frame_queue :: "amqp_frame_t list"
  m_delivered_messages :: "Envelope list"
  m_channels :: "channel_state_t list"
  m_last_used_channel :: amqp_channel_t
  m_is_connected :: bool
  free_store :: nat

text \<open>
  Exceptions are values.  \<open>AmqpException m\<close> is the exception that
  \<^verbatim>\<open>AmqpException::Throw\<close> maps the close method \<open>m\<close> to (the mapping by reply code
  is in a file that is not among the sources; \<^verbatim>\<open>Throw\<close> never returns).
  \<open>RuntimeError\<close> and \<open>LogicError\<close> carry the message of a \<^verbatim>\<open>std::runtime_error\<close> and
  of a \<^verbatim>\<open>std::logic_error\<close>; \<open>OutOfRange\<close> and \<open>InvalidArgument\<close> are the standard
  library's, and so are \<open>LengthError\<close> and \<open>BadAlloc\<close>; \<open>AssertionFailure\<close> is a failed
  \<^verbatim>\<open>assert\<close>.  In the taxonomy of the specification, "Too many channels open" is
  TooManyChannels, the runtime errors about a frame out of sequence are
  ProtocolViolation, and \<open>MessageRejectedException\<close> is MessageNackedByBroker.  A
  failed allocation is modelled where a frame dictates the size asked for (the
  \<^verbatim>\<open>reserve\<close> of \<^verbatim>\<open>ReadContent\<close>); the other allocations are of the size of data already
  held and are taken to succeed.
\<close>

datatype exn =
    RuntimeError string
  | LogicError string
  | OutOfRange
  | InvalidArgument
  | LengthError
  | BadAlloc
  | AssertionFailure
  | AmqpLibraryException int
  | AmqpException amqp_method
  | MessageRejectedException "64 word"
  | MessageReturnedException BasicMessage "32 word" string string string

text \<open>
  A call either never returns (\<open>None\<close>: it blocks on the transport for ever), or ends
  in a state with an exception (\<open>Inl\<close>) or a value (\<open>Inr\<close>).  Calls that cannot block
  have the type without the option.
\<close>

type_synonym 'a outcome = "(exn + 'a) \<times> ChannelImpl"

type_synonym 'a io = "ChannelImpl \<Rightarrow> 'a outcome option"

definition io_bind :: "'a io \<Rightarrow> ('a \<Rightarrow> 'b io) \<Rightarrow> 'b io" where
  "io_bind m k s =
     (case m s of
        None \<Rightarrow> None
      | Some (Inl e, s') \<Rightarrow> Some (Inl e, s')
      | Some (Inr a, s') \<Rightarrow> k a s')"

definition io_lift :: "(ChannelImpl \<Rightarrow> 'a outcome) \<Rightarrow> 'a io" where
  "io_lift f s = Some (f s)"

definition io_return :: "'a \<Rightarrow> 'a io" where
  "io_return a s = Some (Inr a, s)"

section \<open>Channel pool\<close>

text \<open>\<^verbatim>\<open>std::find_if\<close> over a whole container: the index of the first element that
  satisfies the predicate, the length (\<^verbatim>\<open>end()\<close>) when there is none.\<close>

primrec find_if :: "('a \<Rightarrow> bool) \<Rightarrow> 'a list \<Rightarrow> nat" where
  "find_if P [] = 0"
| "find_if P (x # xs) = (if P x then 0 else Suc (find_if P xs))"

lemma find_if_le: "find_if P xs \<le> length xs"
  by (induction xs) auto

definition amqp_get_channel_max :: "amqp_connection_state_t \<Rightarrow> int" where
  "amqp_get_channel_max conn = uint (channel_max conn)"

text \<open>The constructor: slot 0 is in use from the start, nothing is connected.  The
  connection and the free store are the ones that the process has.\<close>

definition ChannelImpl_init :: "amqp_connection_state_t \<Rightarrow> nat \<Rightarrow> ChannelImpl" where
  "ChannelImpl_init conn store =
     \<lparr>m_connection = conn, m_frame_queue = [], m_delivered_messages = [],
      m_channels = [new_channel_state CS_Used], m_last_used_channel = 0,
      m_is_connected = False, free_store = store\<rparr>"

text \<open>\<^verbatim>\<open>GetNextChannelId\<close>.  The result is an \<^verbatim>\<open>amqp_channel_t\<close>, so the index is
  cut to 16 bits.\<close>

definition GetNextChannelId :: "ChannelImpl \<Rightarrow> amqp_channel_t outcome" where
  "GetNextChannelId s =
     (let unused_channel = find_if (\<lambda>state. availability state = CS_Closed) (m_channels s)
      in if unused_channel = length (m_channels s) then
           (let max_channels = amqp_get_channel_max (m_connection s);
                max_channels = (if 0 = max_channels then 65535 else max_channels)
            in if nat max_channels < length (m_channels s) then
                 (Inl (RuntimeError ''Too many channels open''), s)
               else
                 (Inr (word_of_nat (length (m_channels s))),
                  s\<lparr>m_channels := m_channels s @ [new_channel_state CS_Closed]\<rparr>))
         else (Inr (word_of_nat unused_channel), s))"

text \<open>\<^verbatim>\<open>m_channels.at(channel)\<close> throws \<^verbatim>\<open>std::out_of_range\<close> beyond the table.
  A slot is written through an iterator (a position) or through a channel id.\<close>

definition set_availability_at ::
  "nat \<Rightarrow> channel_availability \<Rightarrow> ChannelImpl \<Rightarrow> ChannelImpl" where
  "set_availability_at i a s =
     s\<lparr>m_channels := (m_channels s)[i := (m_channels s ! i)\<lparr>availability := a\<rparr>]\<rparr>"

definition set_availability ::
  "amqp_channel_t \<Rightarrow> channel_availability \<Rightarrow> ChannelImpl \<Rightarrow> ChannelImpl" where
  "set_availability ch a s = set_availability_at (unat ch) a s"

definition ReturnChannel :: "amqp_channel_t \<Rightarrow> ChannelImpl \<Rightarrow> unit outcome" where
  "ReturnChannel ch s =
     (if unat ch < length (m_channels s) then
        (Inr (), (set_availability ch CS_Open s)\<lparr>m_last_used_channel := ch\<rparr>)
      else (Inl OutOfRange, s))"

definition IsChannelOpen :: "amqp_channel_t \<Rightarrow> ChannelImpl \<Rightarrow> bool outcome" where
  "IsChannelOpen ch s =
     (if unat ch < length (m_channels s) then
        (Inr (CS_Closed \<noteq> availability (m_channels s ! unat ch)), s)
      else (Inl OutOfRange, s))"

text \<open>
  Modelled from the spec: \<^verbatim>\<open>DoRpcOnChannel\<close> is a template of \<^verbatim>\<open>ChannelImpl.h\<close>,
  which is not among the sources.  It is a parameter \<open>rpc\<close> of every function that
  calls it: given the channel, the request and the expected reply numbers it blocks for
  ever, throws, or returns the reply frame.
\<close>

type_synonym rpc_t =
  "amqp_channel_t \<Rightarrow> amqp_method \<Rightarrow> amqp_method_number_t list \<Rightarrow> amqp_frame_t io"

definition CreateNewChannel :: "rpc_t \<Rightarrow> amqp_channel_t io" where
  "CreateNewChannel rpc =
     io_bind (io_lift GetNextChannelId) (\<lambda>new_channel.
     io_bind (rpc new_channel Channel_Open [AMQP_CHANNEL_OPEN_OK_METHOD]) (\<lambda>_.
     io_bind (rpc new_channel Confirm_Select [AMQP_CONFIRM_SELECT_OK_METHOD]) (\<lambda>_ s.
       if unat new_channel < length (m_channels s) then
         Some (Inr new_channel, set_availability new_channel CS_Open s)
       else Some (Inl OutOfRange, s))))"

definition GetChannel :: "rpc_t \<Rightarrow> amqp_channel_t io" where
  "GetChannel rpc s =
     (if \<not> unat (m_last_used_channel s) < length (m_channels s) then Some (Inl OutOfRange, s)
      else if CS_Open = availability (m_channels s ! unat (m_last_used_channel s)) then
        Some (Inr (m_last_used_channel s), set_availability (m_last_used_channel s) CS_Used s)
      else
        (let it = find_if (\<lambda>state. availability state = CS_Open) (m_channels s)
         in if length (m_channels s) = it then
              io_bind (CreateNewChannel rpc) (\<lambda>new_channel s'.
                if unat new_channel < length (m_channels s') then
                  Some (Inr new_channel, set_availability new_channel CS_Used s')
                else Some (Inl OutOfRange, s')) s
            else Some (Inr (word_of_nat it), set_availability_at it CS_Used s)))"

section \<open>Close handshakes\<close>

text \<open>
  \<^verbatim>\<open>amqp_send_method\<close> of the transport: the method is handed over and logged; the
  status is the next one of \<open>send_status\<close>, \<^verbatim>\<open>AMQP_STATUS_OK\<close> (0) when none is left.
\<close>

definition amqp_send_method ::
  "amqp_channel_t \<Rightarrow> amqp_method \<Rightarrow> amqp_connection_state_t \<Rightarrow> int \<times> amqp_connection_state_t" where
  "amqp_send_method ch m conn =
     ((case send_status conn of [] \<Rightarrow> 0 | r # _ \<Rightarrow> r),
      conn\<lparr>send_status := tl (send_status conn),
           sent_methods := sent_methods conn @ [(ch, m)]\<rparr>)"

definition CheckForError :: "int \<Rightarrow> ChannelImpl \<Rightarrow> unit outcome" where
  "CheckForError ret s = (if ret < 0 then (Inl (AmqpLibraryException ret), s) else (Inr (), s))"

definition FinishCloseChannel :: "amqp_channel_t \<Rightarrow> ChannelImpl \<Rightarrow> unit outcome" where
  "FinishCloseChannel ch s =
     (if unat ch < length (m_channels s) then
        (let s1 = set_availability ch CS_Closed s;
             (ret, conn) = amqp_send_method ch Channel_Close_Ok (m_connection s1)
         in CheckForError ret (s1\<lparr>m_connection := conn\<rparr>))
      else (Inl OutOfRange, s))"



section \<open>Frame queue and message-boundary detector\<close>

text \<open>
  Modelled from the spec: \<^verbatim>\<open>is_on_channel\<close> and \<^verbatim>\<open>is_method_on_channel\<close> are static
  helpers of \<^verbatim>\<open>ChannelImpl.h\<close>, which is not among the sources: a frame is on a channel
  when its channel id is that channel, and is a given method on a channel when it is a
  method frame on that channel with that method number.
\<close>

definition is_on_channel :: "amqp_frame_t \<Rightarrow> amqp_channel_t \<Rightarrow> bool" where
  "is_on_channel frame ch = (channel frame = ch)"

definition is_method_on_channel ::
  "amqp_frame_t \<Rightarrow> amqp_method_number_t \<Rightarrow> amqp_channel_t \<Rightarrow> bool" where
  "is_method_on_channel frame expected ch =
     (channel frame = ch \<and>
      (case payload frame of Method m \<Rightarrow> method_number m = expected | _ \<Rightarrow> False))"

text \<open>\<^verbatim>\<open>std::find_if(first, end, p)\<close> from a position on; \<^verbatim>\<open>end()\<close> is the length.\<close>

definition find_if_from :: "('a \<Rightarrow> bool) \<Rightarrow> 'a list \<Rightarrow> nat \<Rightarrow> nat" where
  "find_if_from P xs first =
     (if first < length xs then first + find_if P (drop first xs) else length xs)"

lemma find_if_from_le: "find_if_from P xs first \<le> length xs"
  using find_if_le [of P "drop first xs"] by (auto simp: find_if_from_def)

lemma find_if_from_ge: "find_if_from P xs first \<noteq> length xs \<Longrightarrow> first \<le> find_if_from P xs first"
  by (simp add: find_if_from_def split: if_splits)

text \<open>
  The \<^verbatim>\<open>while\<close> loop of \<^verbatim>\<open>CheckForQueuedMessageOnChannel\<close>; \<open>it\<close> is the position of
  the iterator.  The byte counters hold sums of lengths of buffers that are in memory
  together, which stay below \<open>2 ^ 64\<close>, so they are natural numbers.
\<close>

function body_frames_queued ::
  "amqp_channel_t \<Rightarrow> amqp_frame_t list \<Rightarrow> nat \<Rightarrow> nat \<Rightarrow> nat \<Rightarrow> exn + bool" where
  "body_frames_queued ch q it body_length body_received =
     (if body_received < body_length then
        (let it' = find_if_from (\<lambda>frame. is_on_channel frame ch) q (it + 1)
         in if it' = length q then Inr False
            else if frame_type (q ! it') \<noteq> AMQP_FRAME_BODY then
              Inl (RuntimeError ''Protocol error'')
            else body_frames_queued ch q it' body_length
                   (body_received + length (body_fragment (payload (q ! it')))))
      else Inr True)"
  by pat_completeness auto
termination
proof (relation "measure (\<lambda>(ch, q, it, body_length, body_received). length q - it)")
  show "wf (measure (\<lambda>(ch, q, it, body_length, body_received). length q - it))"
    by simp
next
  fix ch :: amqp_channel_t and q :: "amqp_frame_t list" and it body_length body_received it' :: nat
  assume it': "it' = find_if_from (\<lambda>frame. is_on_channel frame ch) q (it + 1)"
    and "it' \<noteq> length q"
  then have "it' < length q"
    using find_if_from_le [of "\<lambda>frame. is_on_channel frame ch" q "it + 1"] by simp
  moreover have "it + 1 \<le> it'"
    using it' \<open>it' \<noteq> length q\<close> by (simp add: find_if_from_ge)
  ultimately show "((ch, q, it', body_length, body_received + length (body_fragment (payload (q ! it')))),
      (ch, q, it, body_length, body_received))
      \<in> measure (\<lambda>(ch, q, it, body_length, body_received). length q - it)"
    by simp
qed

declare body_frames_queued.simps [simp del]

definition CheckForQueuedMessageOnChannel :: "amqp_channel_t \<Rightarrow> ChannelImpl \<Rightarrow> exn + bool" where
  "CheckForQueuedMessageOnChannel ch s =
     (let q = m_frame_queue s;
          it = find_if (\<lambda>frame. is_method_on_channel frame AMQP_BASIC_DELIVER_METHOD ch) q
      in if it = length q then Inr False
         else
           (let it = find_if_from (\<lambda>frame. is_on_channel frame ch) q (it + 1)
            in if it = length q then Inr False
               else if frame_type (q ! it) \<noteq> AMQP_FRAME_HEADER then
                 Inl (RuntimeError ''Protocol error'')
               else body_frames_queued ch q it (unat (body_size (payload (q ! it)))) 0))"

text \<open>
  Modelled from the spec: \<^verbatim>\<open>ConsumeMessageOnChannelInner\<close> is a template of
  \<^verbatim>\<open>ChannelImpl.h\<close>, which is not among the sources.  It is the parameter \<open>consume\<close>:
  given the channels and the timeout it blocks, throws, or returns whether a delivery was
  consumed, and the envelope.
\<close>

type_synonym consume_t = "amqp_channel_t list \<Rightarrow> int \<Rightarrow> (bool \<times> Envelope) io"

definition AddToFrameQueue :: "consume_t \<Rightarrow> amqp_frame_t \<Rightarrow> unit io" where
  "AddToFrameQueue consume frame s =
     (let s1 = s\<lparr>m_frame_queue := m_frame_queue s @ [frame]\<rparr>
      in case CheckForQueuedMessageOnChannel (channel frame) s1 of
           Inl e \<Rightarrow> Some (Inl e, s1)
         | Inr False \<Rightarrow> Some (Inr (), s1)
         | Inr True \<Rightarrow>
             io_bind (consume [channel frame] (- 1)) (\<lambda>(consumed, envelope) s2.
               if \<not> consumed then
                 Some (Inl (LogicError ''ConsumeMessageOnChannelInner returned false unexpectedly''), s2)
               else
                 Some (Inr (), s2\<lparr>m_delivered_messages := m_delivered_messages s2 @ [envelope]\<rparr>)) s1)"

text \<open>\<^verbatim>\<open>amqp_maybe_release_buffers_on_channel\<close> is a hint to the transport; the model
  logs the channel it is given.\<close>

definition MaybeReleaseBuffersOnChannel :: "amqp_channel_t \<Rightarrow> ChannelImpl \<Rightarrow> ChannelImpl" where
  "MaybeReleaseBuffersOnChannel ch s =
     (if length (m_frame_queue s) = find_if (\<lambda>frame. is_on_channel frame ch) (m_frame_queue s) then
        s\<lparr>m_connection := (m_connection s)
            \<lparr>released_channels := released_channels (m_connection s) @ [ch]\<rparr>\<rparr>
      else s)"

section \<open>Reading frames and reassembling content\<close>

text \<open>
  Modelled from the spec: \<^verbatim>\<open>GetNextFrameFromBrokerOnChannel\<close> and
  \<^verbatim>\<open>GetMethodOnChannel\<close> are templates of \<^verbatim>\<open>ChannelImpl.h\<close>, which is not among the
  sources, and so is the default of their timeout argument.  Every call in the file uses
  that default; by the spec these waits block without a bound (a wait returns "no frame"
  only on a timeout).  So the parameters \<open>next_frame\<close> (given the channels) and
  \<open>get_method\<close> (given the channels and the expected method numbers) block for ever,
  throw, or return a frame, and the boolean result that the callers drop is left out.
  What the spec says of the first is written out further down
  (\<open>GetNextFrameFromBrokerOnChannel\<close>), for the one property that is about frames
  freshly read; everywhere else the two stay parameters.
\<close>

type_synonym next_frame_t = "amqp_channel_t list \<Rightarrow> amqp_frame_t io"

type_synonym get_method_t = "amqp_channel_t list \<Rightarrow> amqp_method_number_t list \<Rightarrow> amqp_frame_t io"

definition GetNextFrameOnChannel :: "next_frame_t \<Rightarrow> amqp_channel_t \<Rightarrow> amqp_frame_t io" where
  "GetNextFrameOnChannel next_frame ch s =
     (let it = find_if (\<lambda>frame. is_on_channel frame ch) (m_frame_queue s)
      in if length (m_frame_queue s) \<noteq> it then
           (let frame = m_frame_queue s ! it;
                s1 = s\<lparr>m_frame_queue := take it (m_frame_queue s) @ drop (Suc it) (m_frame_queue s)\<rparr>
            in if AMQP_FRAME_METHOD = frame_type frame \<and>
                  AMQP_CHANNEL_CLOSE_METHOD = method_number (decoded_method (payload frame)) then
                 (case FinishCloseChannel ch s1 of
                    (Inl e, s2) \<Rightarrow> Some (Inl e, s2)
                  | (Inr _, s2) \<Rightarrow> Some (Inl (AmqpException (decoded_method (payload frame))), s2))
               else Some (Inr frame, s1))
         else next_frame [ch] s)"

definition SetMessageProperties :: "BasicMessage \<Rightarrow> amqp_basic_properties_t \<Rightarrow> BasicMessage" where
  "SetMessageProperties mes props =
     (let mes = (if 0 \<noteq> flags props AND AMQP_BASIC_CONTENT_TYPE_FLAG
                 then mes\<lparr>ContentType := Some (content_type props)\<rparr> else mes);
          mes = (if 0 \<noteq> flags props AND AMQP_BASIC_CONTENT_ENCODING_FLAG
                 then mes\<lparr>ContentEncoding := Some (content_encoding props)\<rparr> else mes);
          mes = (if 0 \<noteq> flags props AND AMQP_BASIC_DELIVERY_MODE_FLAG
                 then mes\<lparr>DeliveryMode := Some (delivery_mode props)\<rparr> else mes);
          mes = (if 0 \<noteq> flags props AND AMQP_BASIC_PRIORITY_FLAG
                 then mes\<lparr>Priority := Some (priority props)\<rparr> else mes);
          mes = (if 0 \<noteq> flags props AND AMQP_BASIC_CORRELATION_ID_FLAG
                 then mes\<lparr>CorrelationId := Some (correlation_id props)\<rparr> else mes);
          mes = (if 0 \<noteq> flags props AND AMQP_BASIC_REPLY_TO_FLAG
                 then mes\<lparr>ReplyTo := Some (reply_to props)\<rparr> else mes);
          mes = (if 0 \<noteq> flags props AND AMQP_BASIC_EXPIRATION_FLAG
                 then mes\<lparr>Expiration := Some (expiration props)\<rparr> else mes);
          mes = (if 0 \<noteq> flags props AND AMQP_BASIC_MESSAGE_ID_FLAG
                 then mes\<lparr>MessageId := Some (message_id props)\<rparr> else mes);
          mes = (if 0 \<noteq> flags props AND AMQP_BASIC_TIMESTAMP_FLAG
                 then mes\<lparr>Timestamp := Some (timestamp props)\<rparr> else mes);
          mes = (if 0 \<noteq> flags props AND AMQP_BASIC_TYPE_FLAG
                 then mes\<lparr>Type := Some (type_field props)\<rparr> else mes);
          mes = (if 0 \<noteq> flags props AND AMQP_BASIC_USER_ID_FLAG
                 then mes\<lparr>UserId := Some (user_id props)\<rparr> else mes);
          mes = (if 0 \<noteq> flags props AND AMQP_BASIC_APP_ID_FLAG
                 then mes\<lparr>AppId := Some (app_id props)\<rparr> else mes);
          mes = (if 0 \<noteq> flags props AND AMQP_BASIC_CLUSTER_ID_FLAG
                 then mes\<lparr>ClusterId := Some (cluster_id props)\<rparr> else mes);
          mes = (if 0 \<noteq> flags props AND AMQP_BASIC_HEADERS_FLAG
                 then mes\<lparr>HeaderTable := Some (headers props)\<rparr> else mes)
      in mes)"

text \<open>
  The \<^verbatim>\<open>while\<close> loop of \<^verbatim>\<open>ReadContent\<close>.  It runs as long as frames keep coming and
  the bytes received stay below the declared size, so it is a partial function: \<open>None\<close>
  when a frame fetch blocks for ever or the loop never ends.  \<open>body\<close> is the body
  appended so far; \<open>received_size\<close> counts bytes held in memory and is a natural number.
\<close>

partial_function (option) ReadContent_loop ::
  "next_frame_t \<Rightarrow> amqp_channel_t \<Rightarrow> nat \<Rightarrow> nat \<Rightarrow> string \<Rightarrow> ChannelImpl \<Rightarrow> string outcome option" where
  "ReadContent_loop next_frame ch body_size' received_size body s =
     (if received_size < body_size' then
        (case GetNextFrameOnChannel next_frame ch s of
           None \<Rightarrow> None
         | Some (Inl e, s') \<Rightarrow> Some (Inl e, s')
         | Some (Inr frame, s') \<Rightarrow>
             if frame_type frame \<noteq> AMQP_FRAME_BODY then
               Some (Inl (RuntimeError
                 ''Channel::BasicConsumeMessage: received unexpected frame type (was expecting AMQP_FRAME_BODY)''), s')
             else ReadContent_loop next_frame ch body_size'
                    (received_size + length (body_fragment (payload frame)))
                    (body @ body_fragment (payload frame)) s')
      else Some (Inr body, s))"

declare ReadContent_loop.simps [code]

text \<open>\<^verbatim>\<open>std::numeric_limits<size_t>::max()\<close>, for a \<^verbatim>\<open>size_t\<close> of 64 bits.\<close>

definition SIZE_MAX :: "64 word" where
  "SIZE_MAX = - 1"

text \<open>
  \<^verbatim>\<open>message->Body().reserve(body_size)\<close>, on the empty body of a new message.
  \<^verbatim>\<open>std::string::reserve\<close> throws \<^verbatim>\<open>std::length_error\<close> when the capacity asked for
  is above \<^verbatim>\<open>max_size()\<close>; below, it obtains a buffer of that capacity, and that
  throws \<^verbatim>\<open>std::bad_alloc\<close> when the free store does not grant it (the model asks
  the free store for every capacity, also for one that the string holds in place).  The
  contents of the string stay as they are.  \<^verbatim>\<open>max_size()\<close> is implementation-defined:
  \<open>2^62 - 1\<close> is taken here, the value of libstdc++ for a \<^verbatim>\<open>size_t\<close> of 64
  bits.
\<close>

definition string_max_size :: nat where
  "string_max_size = 2 ^ 62 - 1"

definition Body_reserve :: "nat \<Rightarrow> ChannelImpl \<Rightarrow> unit outcome" where
  "Body_reserve new_cap s =
     (if string_max_size < new_cap then (Inl LengthError, s)
      else if free_store s < new_cap then (Inl BadAlloc, s)
      else (Inr (), s))"

text \<open>\<^verbatim>\<open>ReadContent\<close>.  The \<^verbatim>\<open>assert\<close> on the declared size is modelled as it behaves
  when assertions are compiled in.\<close>

definition ReadContent :: "next_frame_t \<Rightarrow> amqp_channel_t \<Rightarrow> BasicMessage io" where
  "ReadContent next_frame ch =
     io_bind (GetNextFrameOnChannel next_frame ch) (\<lambda>frame s.
       if frame_type frame \<noteq> AMQP_FRAME_HEADER then
         Some (Inl (RuntimeError
           ''Channel::BasicConsumeMessage: received unexpected frame type (was expected AMQP_FRAME_HEADER)''), s)
       else
         (let properties = decoded (payload frame)
          in if \<not> body_size (payload frame) < SIZE_MAX then Some (Inl AssertionFailure, s)
             else
               io_bind (io_lift (Body_reserve (unat (body_size (payload frame))))) (\<lambda>_.
               io_bind (ReadContent_loop next_frame ch (unat (body_size (payload frame))) 0
                          (Body BasicMessage_Create))
                 (\<lambda>body. io_return (SetMessageProperties (BasicMessage_Create\<lparr>Body := body\<rparr>) properties)))
                 s))"

definition CreateMessageReturnedException ::
  "next_frame_t \<Rightarrow> amqp_method \<Rightarrow> amqp_channel_t \<Rightarrow> exn io" where
  "CreateMessageReturnedException next_frame return_method ch =
     (let reply_code' = reply_code return_method;
          reply_text' = reply_text return_method;
          exchange' = exchange return_method;
          routing_key' = routing_key return_method
      in io_bind (ReadContent next_frame ch) (\<lambda>content.
           io_return (MessageReturnedException content (ucast reply_code') reply_text'
                        exchange' routing_key')))"

section \<open>Publisher confirms\<close>

text \<open>\<^verbatim>\<open>state\<close> in \<^verbatim>\<open>GetAckOnChannel\<close> is a reference to the slot of the channel in
  \<^verbatim>\<open>m_channels\<close>; a write through it updates the slot in place.\<close>

definition update_state ::
  "amqp_channel_t \<Rightarrow> (channel_state_t \<Rightarrow> channel_state_t) \<Rightarrow> ChannelImpl \<Rightarrow> ChannelImpl" where
  "update_state ch f s = s\<lparr>m_channels := (m_channels s)[unat ch := f (m_channels s ! unat ch)]\<rparr>"

definition PUBLISH_ACK :: "amqp_method_number_t list" where
  "PUBLISH_ACK = [AMQP_BASIC_ACK_METHOD, AMQP_BASIC_RETURN_METHOD, AMQP_BASIC_NACK_METHOD]"

definition BASIC_ACK :: "amqp_method_number_t list" where
  "BASIC_ACK = [AMQP_BASIC_ACK_METHOD]"

definition GetAckOnChannel :: "get_method_t \<Rightarrow> next_frame_t \<Rightarrow> amqp_channel_t \<Rightarrow> unit io" where
  "GetAckOnChannel get_method next_frame ch s =
     (if \<not> unat ch < length (m_channels s) then Some (Inl OutOfRange, s)
      else if unconsumed_ack (m_channels s ! unat ch) > 0 then
        Some (Inr (), update_state ch (\<lambda>state. state\<lparr>unconsumed_ack := unconsumed_ack state - 1\<rparr>) s)
      else
        io_bind (get_method [ch] PUBLISH_ACK) (\<lambda>response.
          if AMQP_BASIC_NACK_METHOD = method_number (decoded_method (payload response)) then
            (\<lambda>s1.
               let return_method = decoded_method (payload response);
                   s2 = update_state ch
                          (\<lambda>state. state\<lparr>last_delivery_tag := delivery_tag return_method\<rparr>) s1;
                   message_rejected = MessageRejectedException (delivery_tag return_method)
               in io_bind (io_lift (ReturnChannel ch)) (\<lambda>_ s3.
                    Some (Inl message_rejected, MaybeReleaseBuffersOnChannel ch s3)) s2)
          else if AMQP_BASIC_RETURN_METHOD = method_number (decoded_method (payload response)) then
            io_bind (CreateMessageReturnedException next_frame (decoded_method (payload response)) ch)
              (\<lambda>message_returned.
            io_bind (get_method [ch] BASIC_ACK) (\<lambda>_.
            io_bind (io_lift (ReturnChannel ch)) (\<lambda>_ s3.
              Some (Inl message_returned, MaybeReleaseBuffersOnChannel ch s3))))
          else
            (\<lambda>s1.
               let ack = decoded_method (payload response);
                   state = m_channels s1 ! unat ch;
                   s2 = (if delivery_tag ack \<le> last_delivery_tag state then s1
                         else
                           (let diff = delivery_tag ack - last_delivery_tag state;
                                s' = update_state ch
                                       (\<lambda>state. state\<lparr>last_delivery_tag := delivery_tag ack\<rparr>) s1
                            in if diff > 1 then
                                 update_state ch (\<lambda>state. state\<lparr>unconsumed_ack := diff - 1\<rparr>) s'
                               else s'))
               in io_bind (io_lift (ReturnChannel ch)) (\<lambda>_ s3.
                    Some (Inr (), MaybeReleaseBuffersOnChannel ch s3)) s2)) s)"

text \<open>Successive publish-confirm waits on one channel; the run stops at the first wait
  that does not return normally.\<close>

fun GetAckOnChannel_times ::
  "nat \<Rightarrow> get_method_t \<Rightarrow> next_frame_t \<Rightarrow> amqp_channel_t \<Rightarrow> unit io" where
  "GetAckOnChannel_times 0 get_method next_frame ch = io_return ()"
| "GetAckOnChannel_times (Suc n) get_method next_frame ch =
     io_bind (GetAckOnChannel get_method next_frame ch)
       (\<lambda>_. GetAckOnChannel_times n get_method next_frame ch)"

section \<open>Broker version\<close>

definition bytesEqual :: "amqp_bytes_t \<Rightarrow> amqp_bytes_t \<Rightarrow> bool" where
  "bytesEqual r l = (if length r = length l then (if r = l then True else False) else False)"

text \<open>\<^verbatim>\<open>std::string::find(c, pos)\<close>: \<open>None\<close> is \<^verbatim>\<open>npos\<close>.
  \<^verbatim>\<open>substr(pos, n)\<close> is used with \<open>pos\<close> inside the string only.\<close>

definition string_find :: "string \<Rightarrow> char \<Rightarrow> nat \<Rightarrow> nat option" where
  "string_find str c pos =
     (let i = pos + find_if (\<lambda>x. x = c) (drop pos str)
      in if i < length str then Some i else None)"

definition substr :: "string \<Rightarrow> nat \<Rightarrow> nat \<Rightarrow> string" where
  "substr str pos n = take n (drop pos str)"

function splitVersion_loop :: "string \<Rightarrow> string list \<Rightarrow> nat \<Rightarrow> nat option \<Rightarrow> string list" where
  "splitVersion_loop version out prev cur =
     (case cur of
        Some c \<Rightarrow>
          splitVersion_loop version (out @ [substr version prev (c - prev)]) (c + 1)
            (string_find version CHR ''.'' (c + 1))
      | None \<Rightarrow> out @ [drop prev version])"
  by pat_completeness auto
termination
proof (relation "measure (\<lambda>(version, out, prev, cur).
         case cur of None \<Rightarrow> 0 | Some c \<Rightarrow> Suc (length version - c))")
  show "wf (measure (\<lambda>(version, out, prev, cur).
         case cur of None \<Rightarrow> 0 | Some c \<Rightarrow> Suc (length version - c)))"
    by simp
next
  fix version :: string and out :: "string list" and prev :: nat and cur :: "nat option" and c :: nat
  assume "cur = Some c"
  then show "((version, out @ [substr version prev (c - prev)], c + 1,
               string_find version CHR ''.'' (c + 1)),
              (version, out, prev, cur))
             \<in> measure (\<lambda>(version, out, prev, cur).
                 case cur of None \<Rightarrow> 0 | Some c \<Rightarrow> Suc (length version - c))"
    by (auto simp: string_find_def Let_def split: option.splits if_splits)
qed

declare splitVersion_loop.simps [simp del]

definition splitVersion :: "string \<Rightarrow> string list" where
  "splitVersion version = splitVersion_loop version [] 0 (string_find version CHR ''.'' 0)"

text \<open>
  \<^verbatim>\<open>std::stoul\<close> in base 10, as \<^verbatim>\<open>strtoul\<close> reads: white space is skipped, one sign is
  accepted, the longest run of digits is the number.  No digit raises
  \<^verbatim>\<open>std::invalid_argument\<close>, a number above \<^verbatim>\<open>ULONG_MAX\<close> raises
  \<^verbatim>\<open>std::out_of_range\<close>, and a minus sign negates in \<^verbatim>\<open>unsigned long\<close>, here of 64 bits.
\<close>

definition isspace :: "char \<Rightarrow> bool" where
  "isspace c = (c \<in> set [CHR '' '', CHR 0x09, CHR 0x0A, CHR 0x0B, CHR 0x0C, CHR 0x0D])"

definition isdigit :: "char \<Rightarrow> bool" where
  "isdigit c = (c \<in> set ''0123456789'')"

definition digit_value :: "char \<Rightarrow> nat" where
  "digit_value c = of_char c - (of_char CHR ''0'' :: nat)"

definition decimal :: "string \<Rightarrow> nat" where
  "decimal ds = foldl (\<lambda>acc d. 10 * acc + digit_value d) 0 ds"

definition ULONG_MAX :: nat where
  "ULONG_MAX = 2 ^ 64 - 1"

definition stoul :: "string \<Rightarrow> exn + nat" where
  "stoul str =
     (let str = dropWhile isspace str;
          negative = (str \<noteq> [] \<and> hd str = CHR ''-'');
          str = (if str \<noteq> [] \<and> (hd str = CHR ''-'' \<or> hd str = CHR ''+'') then tl str else str);
          digits = takeWhile isdigit str
      in if digits = [] then Inl InvalidArgument
         else if decimal digits > ULONG_MAX then Inl OutOfRange
         else if negative then Inr ((2 ^ 64 - decimal digits) mod 2 ^ 64)
         else Inr (decimal digits))"

definition amqp_get_server_properties :: "amqp_connection_state_t \<Rightarrow> amqp_table_t" where
  "amqp_get_server_properties conn = server_properties conn"

definition ComputeBrokerVersion :: "amqp_connection_state_t \<Rightarrow> exn + 32 word" where
  "ComputeBrokerVersion state =
     (let properties = amqp_get_server_properties state;
          version = ''version'';
          version_entry = find (\<lambda>entry. bytesEqual (fst entry) version) properties
      in case version_entry of
           None \<Rightarrow> Inr 0
         | Some entry \<Rightarrow>
             (let version_string = bytes (snd entry);
                  version_components = splitVersion version_string
              in if length version_components \<noteq> 3 then Inr 0
                 else
                   (case stoul (version_components ! 0) of
                      Inl e \<Rightarrow> Inl e
                    | Inr major \<Rightarrow>
                   (case stoul (version_components ! 1) of
                      Inl e \<Rightarrow> Inl e
                    | Inr minor \<Rightarrow>
                   (case stoul (version_components ! 2) of
                      Inl e \<Rightarrow> Inl e
                    | Inr patch \<Rightarrow>
                        (let version_major = (word_of_nat major :: 32 word);
                             version_minor = (word_of_nat minor :: 32 word);
                             version_patch = (word_of_nat patch :: 32 word)
                         in Inr (push_bit 16 (version_major AND 0xFF) OR
                                 push_bit 8 (version_minor AND 0xFF) OR
                                 (version_patch AND 0xFF))))))))"

section \<open>Notions of the specification\<close>

text \<open>
  The definitions of this section are not code.  They say in the words of the
  specification what the theorems compare the code with, and name the parts of states
  that the statements need.
\<close>

subsection \<open>Channel pool\<close>

text \<open>
  The channel pool in the words of the specification.  No slot is \<open>Closed\<close>; the
  negotiated channel-max, where 0 stands for the protocol's default maximum; and the
  table is saturated when the slots besides the reserved slot 0 have reached that
  maximum.
\<close>

definition no_closed_slot :: "ChannelImpl \<Rightarrow> bool" where
  "no_closed_slot s = (\<forall>state \<in> set (m_channels s). availability state \<noteq> CS_Closed)"

definition negotiated_channel_max :: "ChannelImpl \<Rightarrow> nat" where
  "negotiated_channel_max s =
     (if channel_max (m_connection s) = 0 then 65535 else unat (channel_max (m_connection s)))"

definition saturated :: "ChannelImpl \<Rightarrow> bool" where
  "saturated s = (negotiated_channel_max s \<le> length (m_channels s) - 1)"

subsection \<open>Kinds of frames\<close>

definition is_deliver :: "amqp_frame_t \<Rightarrow> bool" where
  "is_deliver frame = (case payload frame of Method (Basic_Deliver _ _ _ _ _) \<Rightarrow> True | _ \<Rightarrow> False)"

definition is_header :: "amqp_frame_t \<Rightarrow> bool" where
  "is_header frame = (case payload frame of Properties _ _ \<Rightarrow> True | _ \<Rightarrow> False)"

definition is_body :: "amqp_frame_t \<Rightarrow> bool" where
  "is_body frame = (case payload frame of Body_fragment _ \<Rightarrow> True | _ \<Rightarrow> False)"

definition is_channel_close :: "amqp_frame_t \<Rightarrow> bool" where
  "is_channel_close frame =
     (case payload frame of Method (Channel_Close _ _ _ _) \<Rightarrow> True | _ \<Rightarrow> False)"

definition is_connection_close :: "amqp_frame_t \<Rightarrow> bool" where
  "is_connection_close frame =
     (case payload frame of Method (Connection_Close _ _ _ _) \<Rightarrow> True | _ \<Rightarrow> False)"

definition fragment_length :: "amqp_frame_t \<Rightarrow> nat" where
  "fragment_length frame = length (body_fragment (payload frame))"

definition fragments :: "amqp_frame_t list \<Rightarrow> string" where
  "fragments frames = concat (map (\<lambda>frame. body_fragment (payload frame)) frames)"

definition fragments_length :: "amqp_frame_t list \<Rightarrow> nat" where
  "fragments_length frames = sum_list (map fragment_length frames)"

subsection \<open>Deliveries in the frame queue\<close>

text \<open>
  The frames of a channel that follow its earliest queued \<^verbatim>\<open>basic.deliver\<close>, in
  queue order.  The delivery is complete when the first of them is a header and the body
  frames right after it reach the declared size; the header is violated when the first
  of them is something else; the delivery is pending when the queue runs out first,
  which covers a \<^verbatim>\<open>basic.deliver\<close> with nothing after it and a queue without one.
\<close>

definition frames_after_deliver :: "amqp_channel_t \<Rightarrow> amqp_frame_t list \<Rightarrow> amqp_frame_t list" where
  "frames_after_deliver ch q =
     filter (\<lambda>frame. channel frame = ch)
       (tl (dropWhile (\<lambda>frame. \<not> (channel frame = ch \<and> is_deliver frame)) q))"

definition delivery_complete :: "amqp_channel_t \<Rightarrow> amqp_frame_t list \<Rightarrow> bool" where
  "delivery_complete ch q =
     (case frames_after_deliver ch q of
        [] \<Rightarrow> False
      | header # rest \<Rightarrow>
          is_header header \<and>
          unat (body_size (payload header)) \<le> sum_list (map fragment_length (takeWhile is_body rest)))"

definition header_violation :: "amqp_channel_t \<Rightarrow> amqp_frame_t list \<Rightarrow> bool" where
  "header_violation ch q =
     (case frames_after_deliver ch q of [] \<Rightarrow> False | header # rest \<Rightarrow> \<not> is_header header)"

definition delivery_pending :: "amqp_channel_t \<Rightarrow> amqp_frame_t list \<Rightarrow> bool" where
  "delivery_pending ch q =
     (case frames_after_deliver ch q of
        [] \<Rightarrow> True
      | header # rest \<Rightarrow>
          is_header header \<and> list_all is_body rest \<and>
          sum_list (map fragment_length rest) < unat (body_size (payload header)))"

definition enqueued :: "amqp_frame_t \<Rightarrow> ChannelImpl \<Rightarrow> ChannelImpl" where
  "enqueued frame s = s\<lparr>m_frame_queue := m_frame_queue s @ [frame]\<rparr>"

text \<open>The scan of the detector over the frames of one channel, for the proofs.\<close>

fun scan_bodies :: "nat \<Rightarrow> nat \<Rightarrow> amqp_frame_t list \<Rightarrow> exn + bool" where
  "scan_bodies body_length body_received [] = Inr (\<not> body_received < body_length)"
| "scan_bodies body_length body_received (frame # rest) =
     (if body_received < body_length then
        (if frame_type frame \<noteq> AMQP_FRAME_BODY then Inl (RuntimeError ''Protocol error'')
         else scan_bodies body_length (body_received + fragment_length frame) rest)
      else Inr True)"

definition detect :: "amqp_frame_t list \<Rightarrow> exn + bool" where
  "detect frames =
     (case frames of
        [] \<Rightarrow> Inr False
      | header # rest \<Rightarrow>
          if \<not> is_header header then Inl (RuntimeError ''Protocol error'')
          else scan_bodies (unat (body_size (payload header))) 0 rest)"

subsection \<open>Frames taken from the queue, methods sent\<close>

text \<open>
  The first queued frame of a channel and the state without it; the frames that
  \<open>n\<close> successive fetches return, with the state after the last (\<open>None\<close> unless each
  fetch returns a frame); the status of the next send, and the state after a send.
\<close>

definition first_on_channel :: "amqp_channel_t \<Rightarrow> amqp_frame_t list \<Rightarrow> amqp_frame_t option" where
  "first_on_channel ch q = find (\<lambda>frame. channel frame = ch) q"

definition without_first_on_channel :: "amqp_channel_t \<Rightarrow> ChannelImpl \<Rightarrow> ChannelImpl" where
  "without_first_on_channel ch s =
     s\<lparr>m_frame_queue := takeWhile (\<lambda>frame. channel frame \<noteq> ch) (m_frame_queue s) @
                         tl (dropWhile (\<lambda>frame. channel frame \<noteq> ch) (m_frame_queue s))\<rparr>"

fun fetch_frames ::
  "amqp_frame_t io \<Rightarrow> nat \<Rightarrow> ChannelImpl \<Rightarrow> (amqp_frame_t list \<times> ChannelImpl) option" where
  "fetch_frames fetch 0 s = Some ([], s)"
| "fetch_frames fetch (Suc n) s =
     (case fetch s of
        Some (Inr frame, s') \<Rightarrow>
          (case fetch_frames fetch n s' of
             Some (frames, s'') \<Rightarrow> Some (frame # frames, s'')
           | None \<Rightarrow> None)
      | _ \<Rightarrow> None)"

definition next_send_status :: "amqp_connection_state_t \<Rightarrow> int" where
  "next_send_status conn = (case send_status conn of [] \<Rightarrow> 0 | r # _ \<Rightarrow> r)"

definition sent :: "amqp_channel_t \<Rightarrow> amqp_method \<Rightarrow> ChannelImpl \<Rightarrow> ChannelImpl" where
  "sent ch m s =
     s\<lparr>m_connection := (m_connection s)
         \<lparr>send_status := tl (send_status (m_connection s)),
          sent_methods := sent_methods (m_connection s) @ [(ch, m)]\<rparr>\<rparr>"

text \<open>
  What a \<^verbatim>\<open>channel.close\<close> frame makes the engine raise in a state: the exception
  mapped from the close method, or the transport's error when the send of
  \<^verbatim>\<open>channel.close-ok\<close> that comes first fails.  A declared body size is reservable
  in a state when it is within the maximal size of a string and the free store grants
  it.
\<close>

definition raised_on_channel_close :: "amqp_frame_t \<Rightarrow> ChannelImpl \<Rightarrow> exn" where
  "raised_on_channel_close frame s =
     (if next_send_status (m_connection s) < 0
      then AmqpLibraryException (next_send_status (m_connection s))
      else AmqpException (decoded_method (payload frame)))"

definition reservable :: "64 word \<Rightarrow> ChannelImpl \<Rightarrow> bool" where
  "reservable N s = (unat N \<le> string_max_size \<and> unat N \<le> free_store s)"

subsection \<open>Frames read from the transport\<close>





subsection \<open>Confirm state and release\<close>

text \<open>
  The confirm state of a channel is its last delivery tag and its count of banked
  acknowledgements.  A channel is released by \<open>ReturnChannel\<close> followed by
  \<open>MaybeReleaseBuffersOnChannel\<close>; it is then in the pool (its slot is \<open>Open\<close> and it
  is the channel returned last), and the transport was offered its buffers when no frame
  of it is queued.  The waits that are not among the sources are taken to keep the
  confirm state: whenever they return a frame, the channel is still in the table with
  the same tag and count.
\<close>

definition confirm_state :: "amqp_channel_t \<Rightarrow> ChannelImpl \<Rightarrow> 64 word \<times> 64 word" where
  "confirm_state ch s =
     (last_delivery_tag (m_channels s ! unat ch), unconsumed_ack (m_channels s ! unat ch))"

definition released :: "amqp_channel_t \<Rightarrow> ChannelImpl \<Rightarrow> ChannelImpl" where
  "released ch s =
     MaybeReleaseBuffersOnChannel ch ((set_availability ch CS_Open s)\<lparr>m_last_used_channel := ch\<rparr>)"

definition in_pool :: "amqp_channel_t \<Rightarrow> ChannelImpl \<Rightarrow> bool" where
  "in_pool ch s =
     (unat ch < length (m_channels s) \<and> availability (m_channels s ! unat ch) = CS_Open \<and>
      m_last_used_channel s = ch)"

definition buffers_offered :: "amqp_channel_t \<Rightarrow> ChannelImpl \<Rightarrow> ChannelImpl \<Rightarrow> bool" where
  "buffers_offered ch s s' =
     (released_channels (m_connection s') =
        (if \<exists>frame \<in> set (m_frame_queue s'). channel frame = ch
         then released_channels (m_connection s)
         else released_channels (m_connection s) @ [ch]))"

definition confirm_state_kept :: "amqp_channel_t \<Rightarrow> ChannelImpl \<Rightarrow> ChannelImpl \<Rightarrow> bool" where
  "confirm_state_kept ch s s' =
     (unat ch < length (m_channels s) \<longrightarrow>
      unat ch < length (m_channels s') \<and> confirm_state ch s' = confirm_state ch s)"

definition keeps_confirm_state :: "amqp_channel_t \<Rightarrow> 'a io \<Rightarrow> bool" where
  "keeps_confirm_state ch f = (\<forall>s r s'. f s = Some (Inr r, s') \<longrightarrow> confirm_state_kept ch s s')"

section \<open>Example states\<close>

text \<open>
  A connection, a pool of three slots in use, the same pool with one acknowledgement
  banked on channel 1, before and after it is used up, frames of channel 1 and of
  channel 2, the pool with frames queued (\<open>queued\<close>) and with frames about to arrive
  from the transport (\<open>arriving\<close>), a state in which the next send fails
  (\<open>send_failing\<close>), and
  stand-ins for the functions that are not among the sources: \<open>no_rpc\<close> and
  \<open>no_frame\<close> block for ever, \<open>queued_method\<close> takes the first queued frame that is
  an expected method on one of the channels, and \<open>example_consume\<close> empties the queue
  and returns one envelope.
\<close>

definition example_connection :: amqp_connection_state_t where
  "example_connection =
     \<lparr>channel_max = 2,
      server_properties = [(''product'', FieldBytes ''RabbitMQ''), (''version'', FieldBytes ''3.8.2'')],
      send_status = [], sent_methods = [], inbound = [], released_channels = []\<rparr>"

definition example_pool :: ChannelImpl where
  "example_pool =
     \<lparr>m_connection = example_connection, m_frame_queue = [], m_delivered_messages = [],
      m_channels = [new_channel_state CS_Used, new_channel_state CS_Used,
                    new_channel_state CS_Used],
      m_last_used_channel = 0, m_is_connected = True, free_store = 1048576\<rparr>"

definition banked_pool :: ChannelImpl where
  "banked_pool =
     example_pool\<lparr>m_channels :=
       [new_channel_state CS_Used,
        (new_channel_state CS_Used)\<lparr>last_delivery_tag := 3, unconsumed_ack := 1\<rparr>,
        new_channel_state CS_Used]\<rparr>"

definition banked_pool_after :: ChannelImpl where
  "banked_pool_after = update_state 1 (\<lambda>state. state\<lparr>unconsumed_ack := 0\<rparr>) banked_pool"

definition unparseable_version_connection :: amqp_connection_state_t where
  "unparseable_version_connection =
     example_connection\<lparr>server_properties := [(''version'', FieldBytes ''a.b.c'')]\<rparr>"

definition example_properties :: amqp_basic_properties_t where
  "example_properties =
     \<lparr>flags = AMQP_BASIC_CONTENT_TYPE_FLAG, content_type = ''text/plain'', content_encoding = [],
      headers = [], delivery_mode = 0, priority = 0, correlation_id = [], reply_to = [],
      expiration = [], message_id = [], timestamp = 0, type_field = [], user_id = [],
      app_id = [], cluster_id = []\<rparr>"

definition deliver_frame :: amqp_frame_t where
  "deliver_frame = \<lparr>channel = 1, payload = Method (Basic_Deliver ''ctag'' 7 False ''ex'' ''rk'')\<rparr>"

definition header_frame :: amqp_frame_t where
  "header_frame = \<lparr>channel = 1, payload = Properties 5 example_properties\<rparr>"

definition body_frame_abc :: amqp_frame_t where
  "body_frame_abc = \<lparr>channel = 1, payload = Body_fragment ''abc''\<rparr>"

definition body_frame_de :: amqp_frame_t where
  "body_frame_de = \<lparr>channel = 1, payload = Body_fragment ''de''\<rparr>"

definition other_channel_frame :: amqp_frame_t where
  "other_channel_frame = \<lparr>channel = 2, payload = Body_fragment ''zz''\<rparr>"

definition channel_close_frame :: amqp_frame_t where
  "channel_close_frame = \<lparr>channel = 1, payload = Method (Channel_Close 404 ''NOT_FOUND'' 60 40)\<rparr>"

definition connection_close_frame :: amqp_frame_t where
  "connection_close_frame =
     \<lparr>channel = 1, payload = Method (Connection_Close 320 ''CONNECTION_FORCED'' 0 0)\<rparr>"

definition ack_frame :: amqp_frame_t where
  "ack_frame = \<lparr>channel = 1, payload = Method (Basic_Ack 3 True)\<rparr>"

definition nack_frame :: amqp_frame_t where
  "nack_frame = \<lparr>channel = 1, payload = Method (Basic_Nack 5 True False)\<rparr>"

definition return_frame :: amqp_frame_t where
  "return_frame = \<lparr>channel = 1, payload = Method (Basic_Return 312 ''NO_ROUTE'' ''ex'' ''rk'')\<rparr>"

definition oversize_header_frame :: amqp_frame_t where
  "oversize_header_frame =
     \<lparr>channel = 1, payload = Properties 18446744073709551614 example_properties\<rparr>"

definition queued :: "amqp_frame_t list \<Rightarrow> ChannelImpl" where
  "queued q = example_pool\<lparr>m_frame_queue := q\<rparr>"


definition send_failing :: "ChannelImpl \<Rightarrow> ChannelImpl" where
  "send_failing s = s\<lparr>m_connection := (m_connection s)\<lparr>send_status := [- 9]\<rparr>\<rparr>"

definition example_envelope :: Envelope where
  "example_envelope =
     \<lparr>Message = SetMessageProperties (BasicMessage_Create\<lparr>Body := ''abcde''\<rparr>) example_properties,
      ConsumerTag = ''ctag'', DeliveryTag = 7, Exchange = ''ex'', Redelivered = False,
      RoutingKey = ''rk'', DeliveryChannel = 1\<rparr>"

definition no_rpc :: rpc_t where
  "no_rpc ch request expected s = None"

definition no_frame :: next_frame_t where
  "no_frame channels s = None"

definition queued_method :: get_method_t where
  "queued_method channels expected s =
     (case find (\<lambda>frame. channel frame \<in> set channels \<and>
                   (case payload frame of Method m \<Rightarrow> method_number m \<in> set expected | _ \<Rightarrow> False))
             (m_frame_queue s) of
        None \<Rightarrow> None
      | Some frame \<Rightarrow> Some (Inr frame, s\<lparr>m_frame_queue := remove1 frame (m_frame_queue s)\<rparr>))"

definition example_consume :: consume_t where
  "example_consume channels timeout s =
     Some (Inr (True, example_envelope), s\<lparr>m_frame_queue := []\<rparr>)"

section \<open>Basic facts\<close>

lemma find_if_end: "(find_if P xs = length xs) = (\<forall>x \<in> set xs. \<not> P x)"
proof (induction xs)
  case Nil
  show ?case by simp
next
  case (Cons x xs)
  have "find_if P xs \<le> length xs" by (rule find_if_le)
  with Cons show ?case by auto
qed

lemma find_if_found: "find_if P xs \<noteq> length xs \<Longrightarrow> P (xs ! find_if P xs)"
  by (induction xs) (auto split: if_splits)

lemma find_if_lt: "find_if P xs \<noteq> length xs \<Longrightarrow> find_if P xs < length xs"
  using find_if_le [of P xs] by simp

lemma find_if_first: "i < find_if P xs \<Longrightarrow> \<not> P (xs ! i)"
proof (induction xs arbitrary: i)
  case Nil
  then show ?case by simp
next
  case (Cons x xs)
  then show ?case by (cases i) (auto split: if_splits)
qed

lemma find_if_takeWhile: "find_if P xs = length (takeWhile (\<lambda>x. \<not> P x) xs)"
  by (induction xs) auto

lemma drop_find_if: "drop (find_if P xs) xs = dropWhile (\<lambda>x. \<not> P x) xs"
  by (induction xs) auto

lemma take_find_if: "take (find_if P xs) xs = takeWhile (\<lambda>x. \<not> P x) xs"
  by (induction xs) auto

lemma find_find_if:
  "find P xs = (if find_if P xs = length xs then None else Some (xs ! find_if P xs))"
proof (induction xs)
  case Nil
  show ?case by simp
next
  case (Cons x xs)
  then show ?case by (auto split: if_splits)
qed

lemma filter_find_if_none: "find_if P xs = length xs \<Longrightarrow> filter P xs = []"
  by (simp add: find_if_end filter_empty_conv)

lemma filter_find_if_some:
  "find_if P xs \<noteq> length xs \<Longrightarrow>
   filter P xs = xs ! find_if P xs # filter P (drop (Suc (find_if P xs)) xs)"
  by (induction xs) (auto split: if_splits)

lemma filter_find_if_from_none:
  "find_if_from P xs i = length xs \<Longrightarrow> filter P (drop i xs) = []"
proof (cases "i < length xs")
  case True
  assume "find_if_from P xs i = length xs"
  with True have "find_if P (drop i xs) = length (drop i xs)"
    by (simp add: find_if_from_def)
  then show ?thesis by (rule filter_find_if_none)
next
  case False
  then show ?thesis by simp
qed

lemma filter_find_if_from_some:
  assumes "find_if_from P xs i \<noteq> length xs"
  shows "filter P (drop i xs) =
         xs ! find_if_from P xs i # filter P (drop (Suc (find_if_from P xs i)) xs)"
proof -
  from assms have lt: "i < length xs"
    by (simp add: find_if_from_def split: if_splits)
  let ?k = "find_if P (drop i xs)"
  from assms lt have ne: "?k \<noteq> length (drop i xs)"
    by (auto simp: find_if_from_def)
  then have klt: "?k < length (drop i xs)" by (rule find_if_lt)
  have "filter P (drop i xs) = drop i xs ! ?k # filter P (drop (Suc ?k) (drop i xs))"
    using ne by (rule filter_find_if_some)
  moreover have "drop i xs ! ?k = xs ! (i + ?k)"
    using klt by simp
  moreover have "drop (Suc ?k) (drop i xs) = drop (Suc (i + ?k)) xs"
    by (simp add: add.commute)
  ultimately show ?thesis
    using lt by (simp add: find_if_from_def)
qed

lemmas method_numbers =
  AMQP_CONNECTION_CLOSE_METHOD_def AMQP_CONNECTION_CLOSE_OK_METHOD_def
  AMQP_CHANNEL_OPEN_METHOD_def AMQP_CHANNEL_OPEN_OK_METHOD_def
  AMQP_CHANNEL_CLOSE_METHOD_def AMQP_CHANNEL_CLOSE_OK_METHOD_def
  AMQP_CONFIRM_SELECT_METHOD_def AMQP_CONFIRM_SELECT_OK_METHOD_def
  AMQP_BASIC_CANCEL_METHOD_def AMQP_BASIC_RETURN_METHOD_def
  AMQP_BASIC_DELIVER_METHOD_def AMQP_BASIC_ACK_METHOD_def AMQP_BASIC_NACK_METHOD_def

lemmas frame_types =
  AMQP_FRAME_METHOD_def AMQP_FRAME_HEADER_def AMQP_FRAME_BODY_def AMQP_FRAME_HEARTBEAT_def

lemma deliver_number: "(method_number m = AMQP_BASIC_DELIVER_METHOD) = (\<exists>a b c d e. m = Basic_Deliver a b c d e)"
  by (cases m) (simp_all add: method_numbers)

lemma channel_close_number:
  "(method_number m = AMQP_CHANNEL_CLOSE_METHOD) = (\<exists>a b c d. m = Channel_Close a b c d)"
  by (cases m) (simp_all add: method_numbers)

lemma connection_close_number:
  "(method_number m = AMQP_CONNECTION_CLOSE_METHOD) = (\<exists>a b c d. m = Connection_Close a b c d)"
  by (cases m) (simp_all add: method_numbers)

lemma nack_number: "(AMQP_BASIC_NACK_METHOD = method_number m) = (\<exists>a b c. m = Basic_Nack a b c)"
  by (cases m) (simp_all add: method_numbers)

lemma return_number: "(AMQP_BASIC_RETURN_METHOD = method_number m) = (\<exists>a b c d. m = Basic_Return a b c d)"
  by (cases m) (simp_all add: method_numbers)

lemma frame_type_method: "(frame_type frame = AMQP_FRAME_METHOD) = (\<exists>m. payload frame = Method m)"
  by (cases "payload frame") (simp_all add: frame_type_def frame_types)

lemma frame_type_header: "(frame_type frame = AMQP_FRAME_HEADER) = is_header frame"
  by (cases "payload frame") (simp_all add: frame_type_def is_header_def frame_types)

lemma frame_type_body: "(frame_type frame = AMQP_FRAME_BODY) = is_body frame"
  by (cases "payload frame") (simp_all add: frame_type_def is_body_def frame_types)

lemma is_method_on_channel_deliver:
  "is_method_on_channel frame AMQP_BASIC_DELIVER_METHOD ch = (channel frame = ch \<and> is_deliver frame)"
  by (auto simp: is_method_on_channel_def is_deliver_def deliver_number split: amqp_payload.splits amqp_method.splits)

lemma is_channel_close_iff:
  "(AMQP_FRAME_METHOD = frame_type frame \<and>
    AMQP_CHANNEL_CLOSE_METHOD = method_number (decoded_method (payload frame))) = is_channel_close frame"
proof (cases "payload frame")
  case (Method m)
  then show ?thesis
    by (cases m) (simp_all add: is_channel_close_def frame_type_def frame_types method_numbers)
qed (simp_all add: is_channel_close_def frame_type_def frame_types)



lemmas example_frames =
  deliver_frame_def header_frame_def body_frame_abc_def body_frame_de_def other_channel_frame_def
  channel_close_frame_def connection_close_frame_def

lemmas frame_kinds = is_header_def is_body_def is_deliver_def is_channel_close_def
  is_connection_close_def

lemma queued_simps:
  "m_frame_queue (queued q) = q"
  "m_channels (queued q) = m_channels example_pool"
  "m_connection (queued q) = example_connection"
  "without_first_on_channel ch (queued q) =
     queued (takeWhile (\<lambda>frame. channel frame \<noteq> ch) q @ tl (dropWhile (\<lambda>frame. channel frame \<noteq> ch) q))"
  by (simp_all add: queued_def without_first_on_channel_def example_pool_def)

section \<open>Properties of the channel pool\<close>

lemma set_availability_nth:
  "unat c < length (m_channels s) \<Longrightarrow>
   availability (m_channels (set_availability c a s) ! unat c) = a"
  by (simp add: set_availability_def set_availability_at_def)

text \<open>
  C9.  When \<open>ReturnChannel c\<close> succeeds, the slot of \<open>c\<close> is \<open>Open\<close>, and a
  \<open>GetChannel\<close> that follows at once returns \<open>c\<close> and does nothing but mark that slot
  \<open>Used\<close>, whatever the RPC primitive would do: the pool prefers the channel returned
  last.
\<close>

theorem GetChannel_after_ReturnChannel:
  assumes "ReturnChannel c s = (Inr (), s')"
  shows "availability (m_channels s' ! unat c) = CS_Open \<and>
         GetChannel rpc s' = Some (Inr c, set_availability c CS_Used s') \<and>
         availability (m_channels (set_availability c CS_Used s') ! unat c) = CS_Used"
proof -
  from assms have inr: "unat c < length (m_channels s)"
    by (simp add: ReturnChannel_def split: if_splits)
  with assms have s': "s' = (set_availability c CS_Open s)\<lparr>m_last_used_channel := c\<rparr>"
    by (simp add: ReturnChannel_def)
  have len: "unat c < length (m_channels s')"
    using inr by (simp add: s' set_availability_def set_availability_at_def)
  have last: "m_last_used_channel s' = c"
    by (simp add: s')
  have opn: "availability (m_channels s' ! unat c) = CS_Open"
    using inr by (simp add: s' set_availability_def set_availability_at_def)
  have "GetChannel rpc s' = Some (Inr c, set_availability c CS_Used s')"
    using len opn by (simp add: GetChannel_def last)
  moreover have "availability (m_channels (set_availability c CS_Used s') ! unat c) = CS_Used"
    using len by (rule set_availability_nth)
  ultimately show ?thesis using opn by simp
qed

theorem GetChannel_after_ReturnChannel_witness:
  "ReturnChannel 2 example_pool =
     (Inr (), (set_availability 2 CS_Open example_pool)\<lparr>m_last_used_channel := 2\<rparr>) \<and>
   GetChannel no_rpc ((set_availability 2 CS_Open example_pool)\<lparr>m_last_used_channel := 2\<rparr>) =
     Some (Inr 2, set_availability 2 CS_Used
                    ((set_availability 2 CS_Open example_pool)\<lparr>m_last_used_channel := 2\<rparr>))"
proof -
  have h: "ReturnChannel 2 example_pool =
      (Inr (), (set_availability 2 CS_Open example_pool)\<lparr>m_last_used_channel := 2\<rparr>)"
    by (simp add: ReturnChannel_def example_pool_def)
  show ?thesis
    using h GetChannel_after_ReturnChannel [OF h, of no_rpc] by simp
qed

lemma GetNextChannelId_cases:
  "GetNextChannelId s =
     (if no_closed_slot s then
        (if nat (if channel_max (m_connection s) = 0 then 65535
                 else uint (channel_max (m_connection s))) < length (m_channels s)
         then (Inl (RuntimeError ''Too many channels open''), s)
         else (Inr (word_of_nat (length (m_channels s))),
               s\<lparr>m_channels := m_channels s @ [new_channel_state CS_Closed]\<rparr>))
      else (Inr (word_of_nat (find_if (\<lambda>state. availability state = CS_Closed) (m_channels s))), s))"
  by (simp add: GetNextChannelId_def Let_def find_if_end no_closed_slot_def amqp_get_channel_max_def
        uint_0_iff)

lemma saturated_iff:
  "saturated s =
   (nat (if channel_max (m_connection s) = 0 then 65535
         else uint (channel_max (m_connection s))) < length (m_channels s))"
proof -
  have "channel_max (m_connection s) \<noteq> 0 \<Longrightarrow> 0 < unat (channel_max (m_connection s))"
    by (simp add: unat_gt_0)
  then show ?thesis
    by (cases "m_channels s") (auto simp: saturated_def negotiated_channel_max_def)
qed

text \<open>
  C7.  \<open>GetNextChannelId\<close> fails with "Too many channels open" exactly when no slot is
  \<open>Closed\<close> and the table is saturated against the negotiated channel-max (0 read as
  65535); the state is then unchanged.  Otherwise it returns the id of a \<open>Closed\<close> slot
  of the unchanged table, or appends one \<open>Closed\<close> slot and returns its id.  Channel ids
  have 16 bits, so the table is taken to hold at most \<open>2 ^ 16\<close> slots; the allocation
  keeps that bound.
\<close>

theorem GetNextChannelId_TooManyChannels:
  assumes "length (m_channels s) \<le> 65536"
  shows "if no_closed_slot s \<and> saturated s then
           GetNextChannelId s = (Inl (RuntimeError ''Too many channels open''), s)
         else (\<exists>c. unat c < length (m_channels s) \<and>
                    availability (m_channels s ! unat c) = CS_Closed \<and>
                    GetNextChannelId s = (Inr c, s))
            \<or> (\<exists>c. unat c = length (m_channels s) \<and> no_closed_slot s \<and>
                    GetNextChannelId s =
                      (Inr c, s\<lparr>m_channels := m_channels s @ [new_channel_state CS_Closed]\<rparr>))"
proof (cases "no_closed_slot s")
  case True
  show ?thesis
  proof (cases "saturated s")
    case True
    with \<open>no_closed_slot s\<close> show ?thesis
      by (simp add: GetNextChannelId_cases saturated_iff)
  next
    case False
    then have "length (m_channels s) \<le> 65535"
      using unsigned_less [of "channel_max (m_connection s)", where ?'a = nat]
      by (auto simp: saturated_iff split: if_splits)
    then have "unat (word_of_nat (length (m_channels s)) :: 16 word) = length (m_channels s)"
      by (simp add: unat_of_nat)
    with False \<open>no_closed_slot s\<close> show ?thesis
      by (simp add: GetNextChannelId_cases saturated_iff)
  qed
next
  case False
  let ?i = "find_if (\<lambda>state. availability state = CS_Closed) (m_channels s)"
  from False have ne: "?i \<noteq> length (m_channels s)"
    by (simp add: find_if_end no_closed_slot_def)
  then have lt: "?i < length (m_channels s)" by (rule find_if_lt)
  with assms have "unat (word_of_nat ?i :: 16 word) = ?i"
    by (simp add: unat_of_nat)
  moreover have "availability (m_channels s ! ?i) = CS_Closed"
    using ne by (rule find_if_found)
  ultimately show ?thesis
    using False lt by (simp add: GetNextChannelId_cases)
qed

theorem GetNextChannelId_TooManyChannels_witness:
  "length (m_channels example_pool) \<le> 65536 \<and>
   no_closed_slot example_pool \<and> saturated example_pool \<and>
   GetNextChannelId example_pool = (Inl (RuntimeError ''Too many channels open''), example_pool)"
proof -
  have h: "length (m_channels example_pool) \<le> 65536"
    by (simp add: example_pool_def)
  have c: "no_closed_slot example_pool \<and> saturated example_pool"
    by (simp add: no_closed_slot_def saturated_def negotiated_channel_max_def example_pool_def
          example_connection_def new_channel_state_def)
  show ?thesis
    using h c GetNextChannelId_TooManyChannels [OF h] by simp
qed

lemma GetNextChannelId_length:
  "length (m_channels s) \<le> 65536 \<Longrightarrow> length (m_channels (snd (GetNextChannelId s))) \<le> 65536"
  using unsigned_less [of "channel_max (m_connection s)", where ?'a = nat]
  by (auto simp: GetNextChannelId_cases split: if_splits)

section \<open>Properties of the broker version\<close>

lemma splitVersion_abc: "splitVersion ''a.b.c'' = [''a'', ''b'', ''c'']"
  by (simp add: splitVersion_def splitVersion_loop.simps string_find_def substr_def Let_def)

lemma stoul_a: "stoul ''a'' = Inl InvalidArgument"
  by (simp add: stoul_def isspace_def isdigit_def Let_def)

text \<open>
  C8.  The specification gives 0 for every version string that cannot be parsed.
  \<open>ComputeBrokerVersion\<close> returns 0 when the \<open>version\<close> entry is absent
  (\<open>ComputeBrokerVersion_absent\<close>) and when the string does not split into three
  components (\<open>ComputeBrokerVersion_components\<close>), and the packed value when each of
  three components starts with a number (\<open>ComputeBrokerVersion_packed\<close>).  A string of
  three components that are not numbers, here \<^verbatim>\<open>a.b.c\<close>, reaches \<^verbatim>\<open>std::stoul\<close>,
  whose \<^verbatim>\<open>std::invalid_argument\<close> leaves the function as an exception.
\<close>

theorem ComputeBrokerVersion_unparseable:
  "ComputeBrokerVersion unparseable_version_connection = Inl InvalidArgument"
  by (simp add: ComputeBrokerVersion_def unparseable_version_connection_def example_connection_def
        amqp_get_server_properties_def bytesEqual_def splitVersion_abc stoul_a Let_def)

lemma bytesEqual_eq: "bytesEqual r l = (r = l)"
  by (auto simp: bytesEqual_def)

lemma ComputeBrokerVersion_absent:
  "find (\<lambda>entry. fst entry = ''version'') (server_properties conn) = None \<Longrightarrow>
   ComputeBrokerVersion conn = Inr 0"
  by (simp add: ComputeBrokerVersion_def amqp_get_server_properties_def bytesEqual_def Let_def
      cong: if_cong)

lemma ComputeBrokerVersion_components:
  "find (\<lambda>entry. fst entry = ''version'') (server_properties conn) = Some entry \<Longrightarrow>
   length (splitVersion (bytes (snd entry))) \<noteq> 3 \<Longrightarrow>
   ComputeBrokerVersion conn = Inr 0"
  by (simp add: ComputeBrokerVersion_def amqp_get_server_properties_def bytesEqual_eq Let_def)

lemma ComputeBrokerVersion_packed:
  "find (\<lambda>entry. fst entry = ''version'') (server_properties conn) = Some entry \<Longrightarrow>
   splitVersion (bytes (snd entry)) = [a, b, c] \<Longrightarrow>
   stoul a = Inr major \<Longrightarrow> stoul b = Inr minor \<Longrightarrow> stoul c = Inr patch \<Longrightarrow>
   ComputeBrokerVersion conn =
     Inr (push_bit 16 (word_of_nat major AND 0xFF) OR push_bit 8 (word_of_nat minor AND 0xFF) OR
          (word_of_nat patch AND 0xFF))"
  by (simp add: ComputeBrokerVersion_def amqp_get_server_properties_def bytesEqual_eq Let_def)

lemma ComputeBrokerVersion_example: "ComputeBrokerVersion example_connection = Inr 0x030802"
  by (simp add: ComputeBrokerVersion_def example_connection_def
        amqp_get_server_properties_def bytesEqual_def splitVersion_def splitVersion_loop.simps string_find_def substr_def 
        stoul_def isspace_def isdigit_def decimal_def digit_value_def ULONG_MAX_def Let_def)

section \<open>Properties of the message-boundary detector\<close>

lemma body_frames_queued_scan:
  "body_frames_queued ch q it body_length body_received =
   scan_bodies body_length body_received (filter (\<lambda>frame. is_on_channel frame ch) (drop (it + 1) q))"
proof (induction ch q it body_length body_received rule: body_frames_queued.induct)
  case (1 ch q it body_length body_received)
  let ?P = "\<lambda>frame. is_on_channel frame ch"
  let ?it' = "find_if_from ?P q (it + 1)"
  show ?case
  proof (cases "body_received < body_length")
    case False
    then show ?thesis
      by (cases "filter ?P (drop (it + 1) q)") (simp_all add: body_frames_queued.simps [of ch q it])
  next
    case True
    show ?thesis
    proof (cases "?it' = length q")
      case at_end: True
      then have "filter ?P (drop (it + 1) q) = []" by (rule filter_find_if_from_none)
      with True at_end show ?thesis
        by (simp add: body_frames_queued.simps [of ch q it])
    next
      case found: False
      then have f: "filter ?P (drop (it + 1) q) = q ! ?it' # filter ?P (drop (Suc ?it') q)"
        by (rule filter_find_if_from_some)
      show ?thesis
      proof (cases "frame_type (q ! ?it') \<noteq> AMQP_FRAME_BODY")
        case True
        with \<open>body_received < body_length\<close> found f show ?thesis
          by (simp add: body_frames_queued.simps [of ch q it])
      next
        case False
        with \<open>body_received < body_length\<close> found
        have "body_frames_queued ch q ?it' body_length
                (body_received + length (body_fragment (payload (q ! ?it')))) =
              scan_bodies body_length (body_received + length (body_fragment (payload (q ! ?it'))))
                (filter ?P (drop (?it' + 1) q))"
          by (intro "1.IH") simp_all
        with \<open>body_received < body_length\<close> found f False show ?thesis
          by (simp add: body_frames_queued.simps [of ch q it] fragment_length_def Let_def)
      qed
    qed
  qed
qed

lemma CheckForQueuedMessageOnChannel_detect:
  "CheckForQueuedMessageOnChannel ch s = detect (frames_after_deliver ch (m_frame_queue s))"
proof -
  let ?q = "m_frame_queue s"
  let ?D = "\<lambda>frame. is_method_on_channel frame AMQP_BASIC_DELIVER_METHOD ch"
  let ?P = "\<lambda>frame. is_on_channel frame ch"
  let ?it0 = "find_if ?D ?q"
  let ?it1 = "find_if_from ?P ?q (?it0 + 1)"
  have after: "frames_after_deliver ch ?q = filter ?P (drop (?it0 + 1) ?q)"
  proof -
    have "dropWhile (\<lambda>frame. \<not> (channel frame = ch \<and> is_deliver frame)) ?q = drop ?it0 ?q"
      by (simp add: drop_find_if is_method_on_channel_deliver)
    then show ?thesis
      by (simp add: frames_after_deliver_def is_on_channel_def drop_Suc tl_drop)
  qed
  show ?thesis
  proof (cases "?it0 = length ?q")
    case True
    then show ?thesis
      by (simp add: CheckForQueuedMessageOnChannel_def after detect_def)
  next
    case deliver: False
    show ?thesis
    proof (cases "?it1 = length ?q")
      case True
      then have "filter ?P (drop (?it0 + 1) ?q) = []" by (rule filter_find_if_from_none)
      with deliver True show ?thesis
        by (simp add: CheckForQueuedMessageOnChannel_def after detect_def Let_def)
    next
      case False
      then have "filter ?P (drop (?it0 + 1) ?q) = ?q ! ?it1 # filter ?P (drop (Suc ?it1) ?q)"
        by (rule filter_find_if_from_some)
      with deliver False show ?thesis
        by (simp add: CheckForQueuedMessageOnChannel_def after detect_def Let_def
              body_frames_queued_scan frame_type_header)
    qed
  qed
qed

lemma scan_bodies_True:
  "(scan_bodies n r frames = Inr True) =
   (n \<le> r + sum_list (map fragment_length (takeWhile is_body frames)))"
proof (induction frames arbitrary: r)
  case Nil
  show ?case by (simp add: not_less)
next
  case (Cons frame frames)
  show ?case
  proof (cases "r < n")
    case False
    then show ?thesis by simp
  next
    case True
    show ?thesis
    proof (cases "is_body frame")
      case False
      with True show ?thesis by (simp add: frame_type_body)
    next
      case body: True
      with True Cons [of "r + fragment_length frame"] show ?thesis
        by (simp add: frame_type_body add.assoc)
    qed
  qed
qed

lemma scan_bodies_False:
  "(scan_bodies n r frames = Inr False) =
   (list_all is_body frames \<and> r + sum_list (map fragment_length frames) < n)"
proof (induction frames arbitrary: r)
  case Nil
  show ?case by simp
next
  case (Cons frame frames)
  show ?case
  proof (cases "r < n")
    case False
    then show ?thesis by simp
  next
    case True
    show ?thesis
    proof (cases "is_body frame")
      case False
      with True show ?thesis by (simp add: frame_type_body)
    next
      case body: True
      with True Cons [of "r + fragment_length frame"] show ?thesis
        by (simp add: frame_type_body add.assoc)
    qed
  qed
qed

lemma scan_bodies_error:
  "scan_bodies n r frames = Inl e \<Longrightarrow> e = RuntimeError ''Protocol error''"
proof (induction frames arbitrary: r)
  case Nil
  then show ?case by simp
next
  case (Cons frame frames)
  then show ?case by (simp split: if_splits)
qed

lemma CheckForQueuedMessageOnChannel_complete:
  "(CheckForQueuedMessageOnChannel ch s = Inr True) = delivery_complete ch (m_frame_queue s)"
proof (cases "frames_after_deliver ch (m_frame_queue s)")
  case Nil
  then show ?thesis
    by (simp add: CheckForQueuedMessageOnChannel_detect detect_def delivery_complete_def)
next
  case (Cons header rest)
  then show ?thesis
    by (simp add: CheckForQueuedMessageOnChannel_detect detect_def delivery_complete_def
          scan_bodies_True)
qed

lemma CheckForQueuedMessageOnChannel_pending:
  "(CheckForQueuedMessageOnChannel ch s = Inr False) = delivery_pending ch (m_frame_queue s)"
proof (cases "frames_after_deliver ch (m_frame_queue s)")
  case Nil
  then show ?thesis
    by (simp add: CheckForQueuedMessageOnChannel_detect detect_def delivery_pending_def)
next
  case (Cons header rest)
  then show ?thesis
    by (simp add: CheckForQueuedMessageOnChannel_detect detect_def delivery_pending_def
          scan_bodies_False)
qed

lemma CheckForQueuedMessageOnChannel_violation:
  "header_violation ch (m_frame_queue s) \<Longrightarrow>
   CheckForQueuedMessageOnChannel ch s = Inl (RuntimeError ''Protocol error'')"
  by (cases "frames_after_deliver ch (m_frame_queue s)")
     (simp_all add: CheckForQueuedMessageOnChannel_detect detect_def header_violation_def)

lemma CheckForQueuedMessageOnChannel_error:
  "CheckForQueuedMessageOnChannel ch s = Inl e \<Longrightarrow> e = RuntimeError ''Protocol error''"
  by (cases "frames_after_deliver ch (m_frame_queue s)")
     (auto simp: CheckForQueuedMessageOnChannel_detect detect_def
           split: if_splits dest: scan_bodies_error)

text \<open>
  C3.  \<open>AddToFrameQueue\<close> appends the frame and then looks, on the channel of that
  frame, at the frames that follow the earliest queued \<^verbatim>\<open>basic.deliver\<close>.  It runs the
  promotion step, and appends the envelope that the step returns to the delivered
  messages, exactly when the first of them is a header and the body frames after it
  reach the declared size.  When the delivery is not complete the promotion step is not
  run and nothing but the appended frame changes: a first frame that is not a header
  ends in "Protocol error", and a queue that runs out (a lone \<^verbatim>\<open>basic.deliver\<close>
  included) ends normally with the delivery parked.
\<close>

theorem AddToFrameQueue_promotes:
  "(delivery_complete (channel frame) (m_frame_queue s @ [frame]) \<longrightarrow>
      (\<forall>envelope s2. consume [channel frame] (- 1) (enqueued frame s) = Some (Inr (True, envelope), s2) \<longrightarrow>
         AddToFrameQueue consume frame s =
           Some (Inr (), s2\<lparr>m_delivered_messages := m_delivered_messages s2 @ [envelope]\<rparr>))) \<and>
   (\<not> delivery_complete (channel frame) (m_frame_queue s @ [frame]) \<longrightarrow>
      (\<exists>r. AddToFrameQueue consume frame s = Some (r, enqueued frame s))) \<and>
   (header_violation (channel frame) (m_frame_queue s @ [frame]) \<longrightarrow>
      AddToFrameQueue consume frame s =
        Some (Inl (RuntimeError ''Protocol error''), enqueued frame s)) \<and>
   (delivery_pending (channel frame) (m_frame_queue s @ [frame]) \<longrightarrow>
      AddToFrameQueue consume frame s = Some (Inr (), enqueued frame s))"
proof -
  let ?s1 = "enqueued frame s"
  let ?check = "CheckForQueuedMessageOnChannel (channel frame) ?s1"
  have q: "m_frame_queue ?s1 = m_frame_queue s @ [frame]"
    by (simp add: enqueued_def)
  have unfold: "AddToFrameQueue consume frame s =
      (case ?check of
         Inl e \<Rightarrow> Some (Inl e, ?s1)
       | Inr False \<Rightarrow> Some (Inr (), ?s1)
       | Inr True \<Rightarrow>
           io_bind (consume [channel frame] (- 1)) (\<lambda>(consumed, envelope) s2.
             if \<not> consumed then
               Some (Inl (LogicError ''ConsumeMessageOnChannelInner returned false unexpectedly''), s2)
             else
               Some (Inr (), s2\<lparr>m_delivered_messages := m_delivered_messages s2 @ [envelope]\<rparr>)) ?s1)"
    unfolding AddToFrameQueue_def enqueued_def Let_def by (rule refl)
  have complete: "(?check = Inr True) = delivery_complete (channel frame) (m_frame_queue s @ [frame])"
    by (simp add: CheckForQueuedMessageOnChannel_complete q)
  have pending: "(?check = Inr False) = delivery_pending (channel frame) (m_frame_queue s @ [frame])"
    by (simp add: CheckForQueuedMessageOnChannel_pending q)
  have violation: "header_violation (channel frame) (m_frame_queue s @ [frame]) \<Longrightarrow>
      ?check = Inl (RuntimeError ''Protocol error'')"
    using CheckForQueuedMessageOnChannel_violation [of "channel frame" ?s1] by (simp add: q)
  have c1: "delivery_complete (channel frame) (m_frame_queue s @ [frame]) \<longrightarrow>
      (\<forall>envelope s2. consume [channel frame] (- 1) ?s1 = Some (Inr (True, envelope), s2) \<longrightarrow>
         AddToFrameQueue consume frame s =
           Some (Inr (), s2\<lparr>m_delivered_messages := m_delivered_messages s2 @ [envelope]\<rparr>))"
    by (simp add: unfold complete [symmetric] io_bind_def)
  have c2: "\<not> delivery_complete (channel frame) (m_frame_queue s @ [frame]) \<longrightarrow>
      (\<exists>r. AddToFrameQueue consume frame s = Some (r, ?s1))"
  proof
    assume "\<not> delivery_complete (channel frame) (m_frame_queue s @ [frame])"
    then have "?check \<noteq> Inr True" by (simp add: complete)
    then show "\<exists>r. AddToFrameQueue consume frame s = Some (r, ?s1)"
      by (cases ?check) (auto simp: unfold split: bool.splits)
  qed
  have c3: "header_violation (channel frame) (m_frame_queue s @ [frame]) \<longrightarrow>
      AddToFrameQueue consume frame s = Some (Inl (RuntimeError ''Protocol error''), ?s1)"
    using violation by (auto simp: unfold)
  have c4: "delivery_pending (channel frame) (m_frame_queue s @ [frame]) \<longrightarrow>
      AddToFrameQueue consume frame s = Some (Inr (), ?s1)"
    by (simp add: unfold pending [symmetric])
  from c1 c2 c3 c4 show ?thesis by blast
qed

theorem AddToFrameQueue_promotes_witness:
  "delivery_complete 1 [deliver_frame, header_frame, body_frame_abc, body_frame_de] \<and>
   AddToFrameQueue example_consume body_frame_de (queued [deliver_frame, header_frame, body_frame_abc]) =
     Some (Inr (), (queued [])\<lparr>m_delivered_messages := [example_envelope]\<rparr>) \<and>
   delivery_pending 1 [deliver_frame] \<and>
   AddToFrameQueue example_consume deliver_frame (queued []) = Some (Inr (), queued [deliver_frame]) \<and>
   delivery_pending 1 [deliver_frame, header_frame, body_frame_abc] \<and>
   AddToFrameQueue example_consume body_frame_abc (queued [deliver_frame, header_frame]) =
     Some (Inr (), queued [deliver_frame, header_frame, body_frame_abc]) \<and>
   header_violation 1 [deliver_frame, body_frame_abc] \<and>
   AddToFrameQueue example_consume body_frame_abc (queued [deliver_frame]) =
     Some (Inl (RuntimeError ''Protocol error''), queued [deliver_frame, body_frame_abc])"
proof -
  have enq: "enqueued frame (queued q) = queued (q @ [frame])" for frame q
    by (simp add: enqueued_def queued_def)
  have ch: "channel body_frame_de = 1" "channel body_frame_abc = 1" "channel deliver_frame = 1"
    by (simp_all add: example_frames)
  have d1: "delivery_complete 1 [deliver_frame, header_frame, body_frame_abc, body_frame_de]"
    by (simp add: delivery_complete_def frames_after_deliver_def frame_kinds example_frames
          fragment_length_def)
  have d2: "delivery_pending 1 [deliver_frame]"
    by (simp add: delivery_pending_def frames_after_deliver_def frame_kinds example_frames)
  have d3: "delivery_pending 1 [deliver_frame, header_frame, body_frame_abc]"
    by (simp add: delivery_pending_def frames_after_deliver_def frame_kinds example_frames
          fragment_length_def)
  have d4: "header_violation 1 [deliver_frame, body_frame_abc]"
    by (simp add: header_violation_def frames_after_deliver_def frame_kinds example_frames)
  have c: "example_consume [1] (- 1) (queued [deliver_frame, header_frame, body_frame_abc, body_frame_de]) =
      Some (Inr (True, example_envelope), queued [])"
    by (simp add: example_consume_def queued_def)
  have dl: "m_delivered_messages (queued []) = []"
    by (simp add: queued_def example_pool_def)
  from AddToFrameQueue_promotes [where consume = example_consume and frame = body_frame_de
      and s = "queued [deliver_frame, header_frame, body_frame_abc]", THEN conjunct1] d1 c
  have w1: "AddToFrameQueue example_consume body_frame_de
      (queued [deliver_frame, header_frame, body_frame_abc]) =
     Some (Inr (), (queued [])\<lparr>m_delivered_messages := [example_envelope]\<rparr>)"
    by (simp add: enq ch queued_simps dl)
  from AddToFrameQueue_promotes [where consume = example_consume and frame = deliver_frame
      and s = "queued []", THEN conjunct2, THEN conjunct2, THEN conjunct2] d2
  have w2: "AddToFrameQueue example_consume deliver_frame (queued []) =
      Some (Inr (), queued [deliver_frame])"
    by (simp add: enq ch queued_simps)
  from AddToFrameQueue_promotes [where consume = example_consume and frame = body_frame_abc
      and s = "queued [deliver_frame, header_frame]", THEN conjunct2, THEN conjunct2, THEN conjunct2] d3
  have w3: "AddToFrameQueue example_consume body_frame_abc (queued [deliver_frame, header_frame]) =
     Some (Inr (), queued [deliver_frame, header_frame, body_frame_abc])"
    by (simp add: enq ch queued_simps)
  from AddToFrameQueue_promotes [where consume = example_consume and frame = body_frame_abc
      and s = "queued [deliver_frame]", THEN conjunct2, THEN conjunct2, THEN conjunct1] d4
  have w4: "AddToFrameQueue example_consume body_frame_abc (queued [deliver_frame]) =
     Some (Inl (RuntimeError ''Protocol error''), queued [deliver_frame, body_frame_abc])"
    by (simp add: enq ch queued_simps)
  from d1 d2 d3 d4 w1 w2 w3 w4 show ?thesis by simp
qed

section \<open>Properties of the close handling\<close>

lemma FinishCloseChannel_eq:
  "unat ch < length (m_channels s) \<Longrightarrow>
   FinishCloseChannel ch s =
     (if next_send_status (m_connection s) < 0
      then Inl (AmqpLibraryException (next_send_status (m_connection s))) else Inr (),
      sent ch Channel_Close_Ok (set_availability ch CS_Closed s))"
  by (simp add: FinishCloseChannel_def amqp_send_method_def CheckForError_def Let_def
        next_send_status_def sent_def set_availability_def set_availability_at_def)


lemma FinishCloseChannel_send_fails:
  "unat ch < length (m_channels s) \<Longrightarrow> next_send_status (m_connection s) < 0 \<Longrightarrow>
   FinishCloseChannel ch s =
     (Inl (AmqpLibraryException (next_send_status (m_connection s))),
      sent ch Channel_Close_Ok (set_availability ch CS_Closed s))"
  by (simp add: FinishCloseChannel_eq)

lemma GetNextFrameOnChannel_queued:
  assumes "first_on_channel ch (m_frame_queue s) = Some frame"
  shows "GetNextFrameOnChannel next_frame ch s =
     (if is_channel_close frame then
        (case FinishCloseChannel ch (without_first_on_channel ch s) of
           (Inl e, s2) \<Rightarrow> Some (Inl e, s2)
         | (Inr _, s2) \<Rightarrow> Some (Inl (AmqpException (decoded_method (payload frame))), s2))
      else Some (Inr frame, without_first_on_channel ch s))"
proof -
  let ?P = "\<lambda>frame. is_on_channel frame ch"
  let ?q = "m_frame_queue s"
  let ?it = "find_if ?P ?q"
  from assms have ne: "?it \<noteq> length ?q" and fr: "?q ! ?it = frame"
    by (auto simp: first_on_channel_def find_find_if is_on_channel_def split: if_splits)
  have "tl (dropWhile (\<lambda>frame. \<not> ?P frame) ?q) = tl (drop ?it ?q)"
    by (simp add: drop_find_if)
  then have "drop (Suc ?it) ?q = tl (dropWhile (\<lambda>frame. \<not> ?P frame) ?q)"
    by (simp add: drop_Suc tl_drop)
  then have rm: "s\<lparr>m_frame_queue := take ?it ?q @ drop (Suc ?it) ?q\<rparr> = without_first_on_channel ch s"
    by (simp add: without_first_on_channel_def take_find_if is_on_channel_def)
  show ?thesis
    unfolding GetNextFrameOnChannel_def Let_def
    using ne by (simp only: rm fr is_channel_close_iff eq_commute [of "length ?q"] if_True if_False not_False_eq_True)
qed

lemma GetNextFrameOnChannel_not_queued:
  assumes "first_on_channel ch (m_frame_queue s) = None"
  shows "GetNextFrameOnChannel next_frame ch s = next_frame [ch] s"
proof -
  from assms have "find_if (\<lambda>frame. is_on_channel frame ch) (m_frame_queue s) = length (m_frame_queue s)"
    by (auto simp: first_on_channel_def find_find_if is_on_channel_def split: if_splits)
  then show ?thesis
    by (simp add: GetNextFrameOnChannel_def Let_def)
qed


lemma GetNextFrameOnChannel_channel_close:
  assumes "first_on_channel ch (m_frame_queue s) = Some frame" "is_channel_close frame"
    and "unat ch < length (m_channels s)"
  shows "GetNextFrameOnChannel next_frame ch s =
     Some (Inl (raised_on_channel_close frame s),
           sent ch Channel_Close_Ok (set_availability ch CS_Closed (without_first_on_channel ch s)))"
proof -
  have "length (m_channels (without_first_on_channel ch s)) = length (m_channels s)"
    and "m_connection (without_first_on_channel ch s) = m_connection s"
    by (simp_all add: without_first_on_channel_def)
  with assms show ?thesis
    by (simp add: GetNextFrameOnChannel_queued FinishCloseChannel_eq raised_on_channel_close_def)
qed

lemma fetch_queued:
  "first_on_channel ch q = Some frame \<Longrightarrow> \<not> is_channel_close frame \<Longrightarrow>
   GetNextFrameOnChannel next_frame ch (queued q) =
     Some (Inr frame, queued (takeWhile (\<lambda>frame. channel frame \<noteq> ch) q @
                                tl (dropWhile (\<lambda>frame. channel frame \<noteq> ch) q)))"
  by (simp add: GetNextFrameOnChannel_queued queued_simps)









lemma example_send_status: "next_send_status example_connection = 0"
  by (simp add: next_send_status_def example_connection_def)


lemma send_failing_simps:
  "m_frame_queue (send_failing s) = m_frame_queue s"
  "m_channels (send_failing s) = m_channels s"
  "next_send_status (m_connection (send_failing s)) = - 9"
  "without_first_on_channel ch (send_failing s) = send_failing (without_first_on_channel ch s)"
  by (simp_all add: send_failing_def next_send_status_def without_first_on_channel_def)




section \<open>Properties of the content reassembly\<close>

lemma fetch_frames_Suc:
  "fetch_frames fetch (Suc n) s = Some (frame # frames, s'') \<Longrightarrow>
   \<exists>s'. fetch s = Some (Inr frame, s') \<and> fetch_frames fetch n s' = Some (frames, s'')"
  by (auto split: option.splits sum.splits prod.splits)

lemma ReadContent_loop_bodies:
  "fetch_frames (GetNextFrameOnChannel next_frame ch) (length bodies) s = Some (bodies, s') \<Longrightarrow>
   list_all is_body bodies \<Longrightarrow>
   (\<forall>k < length bodies. r + fragments_length (take k bodies) < n) \<Longrightarrow>
   n \<le> r + fragments_length bodies \<Longrightarrow>
   ReadContent_loop next_frame ch n r b s = Some (Inr (b @ fragments bodies), s')"
proof (induction bodies arbitrary: r b s)
  case Nil
  then show ?case
    by (subst ReadContent_loop.simps) (simp add: fragments_def fragments_length_def)
next
  case (Cons frame bodies)
  from Cons.prems(1) obtain s1 where
    f: "GetNextFrameOnChannel next_frame ch s = Some (Inr frame, s1)" and
    rest: "fetch_frames (GetNextFrameOnChannel next_frame ch) (length bodies) s1 = Some (bodies, s')"
    using fetch_frames_Suc [of "GetNextFrameOnChannel next_frame ch" "length bodies" s frame bodies s']
    by auto
  from Cons.prems(3) have lt: "r < n"
    by (auto simp: fragments_length_def dest: spec [of _ 0])
  from Cons.prems(2) have body: "frame_type frame = AMQP_FRAME_BODY" and all: "list_all is_body bodies"
    by (simp_all add: frame_type_body)
  have shift: "\<forall>k < length bodies.
      r + length (body_fragment (payload frame)) + fragments_length (take k bodies) < n"
  proof (intro allI impI)
    fix k assume "k < length bodies"
    with Cons.prems(3) have "r + fragments_length (take (Suc k) (frame # bodies)) < n"
      by (auto dest: spec [of _ "Suc k"])
    then show "r + length (body_fragment (payload frame)) + fragments_length (take k bodies) < n"
      by (simp add: fragments_length_def fragment_length_def)
  qed
  from Cons.prems(4)
  have reach: "n \<le> r + length (body_fragment (payload frame)) + fragments_length bodies"
    by (simp add: fragments_length_def fragment_length_def)
  have "ReadContent_loop next_frame ch n (r + length (body_fragment (payload frame)))
          (b @ body_fragment (payload frame)) s1 =
        Some (Inr ((b @ body_fragment (payload frame)) @ fragments bodies), s')"
    using rest all shift reach by (rule Cons.IH)
  then show ?case
    using lt f body by (subst ReadContent_loop.simps) (simp add: fragments_def)
qed

lemma ReadContent_loop_raises:
  "fetch_frames (GetNextFrameOnChannel next_frame ch) (length bodies) s = Some (bodies, s2) \<Longrightarrow>
   list_all is_body bodies \<Longrightarrow>
   r + fragments_length bodies < n \<Longrightarrow>
   GetNextFrameOnChannel next_frame ch s2 = Some (Inl e, s') \<Longrightarrow>
   ReadContent_loop next_frame ch n r b s = Some (Inl e, s')"
proof (induction bodies arbitrary: r b s)
  case Nil
  then show ?case
    by (subst ReadContent_loop.simps) (simp add: fragments_length_def)
next
  case (Cons x bodies)
  from Cons.prems(1) obtain s1 where
    f: "GetNextFrameOnChannel next_frame ch s = Some (Inr x, s1)" and
    rest: "fetch_frames (GetNextFrameOnChannel next_frame ch) (length bodies) s1 = Some (bodies, s2)"
    using fetch_frames_Suc [of "GetNextFrameOnChannel next_frame ch" "length bodies" s x bodies s2]
    by auto
  from Cons.prems(2) have body: "frame_type x = AMQP_FRAME_BODY" and all: "list_all is_body bodies"
    by (simp_all add: frame_type_body)
  from Cons.prems(3) have lt: "r < n"
    and below: "r + length (body_fragment (payload x)) + fragments_length bodies < n"
    by (simp_all add: fragments_length_def fragment_length_def)
  have "ReadContent_loop next_frame ch n (r + length (body_fragment (payload x)))
          (b @ body_fragment (payload x)) s1 = Some (Inl e, s')"
    using rest all below Cons.prems(4) by (rule Cons.IH)
  then show ?case
    using lt f body by (subst ReadContent_loop.simps) simp
qed

lemma ReadContent_loop_unexpected:
  "fetch_frames (GetNextFrameOnChannel next_frame ch) (Suc (length bodies)) s =
     Some (bodies @ [frame], s') \<Longrightarrow>
   list_all is_body bodies \<Longrightarrow>
   r + fragments_length bodies < n \<Longrightarrow>
   \<not> is_body frame \<Longrightarrow>
   ReadContent_loop next_frame ch n r b s =
     Some (Inl (RuntimeError
       ''Channel::BasicConsumeMessage: received unexpected frame type (was expecting AMQP_FRAME_BODY)''), s')"
proof (induction bodies arbitrary: r b s)
  case Nil
  from Nil.prems(1) have "GetNextFrameOnChannel next_frame ch s = Some (Inr frame, s')"
    by (auto split: option.splits sum.splits prod.splits)
  with Nil.prems show ?case
    by (subst ReadContent_loop.simps) (simp add: fragments_length_def frame_type_body)
next
  case (Cons x bodies)
  from Cons.prems(1) obtain s1 where
    f: "GetNextFrameOnChannel next_frame ch s = Some (Inr x, s1)" and
    rest: "fetch_frames (GetNextFrameOnChannel next_frame ch) (Suc (length bodies)) s1 =
             Some (bodies @ [frame], s')"
    using fetch_frames_Suc [of "GetNextFrameOnChannel next_frame ch" "Suc (length bodies)" s x
        "bodies @ [frame]" s']
    by auto
  from Cons.prems(2) have body: "frame_type x = AMQP_FRAME_BODY" and all: "list_all is_body bodies"
    by (simp_all add: frame_type_body)
  from Cons.prems(3) have lt: "r < n"
    and below: "r + length (body_fragment (payload x)) + fragments_length bodies < n"
    by (simp_all add: fragments_length_def fragment_length_def)
  have "ReadContent_loop next_frame ch n (r + length (body_fragment (payload x)))
          (b @ body_fragment (payload x)) s1 =
        Some (Inl (RuntimeError
       ''Channel::BasicConsumeMessage: received unexpected frame type (was expecting AMQP_FRAME_BODY)''), s')"
    using rest all below Cons.prems(4) by (rule Cons.IH)
  then show ?case
    using lt f body by (subst ReadContent_loop.simps) simp
qed

lemma Body_Let: "(\<And>x. Body (f x) = Body x) \<Longrightarrow> Body (Let a f) = Body a"
  by (simp add: Let_def)

lemma Body_SetMessageProperties: "Body (SetMessageProperties mes props) = Body mes"
  unfolding SetMessageProperties_def by (intro Body_Let [THEN trans]) simp_all

lemma reservable_SIZE_MAX: "reservable N s \<Longrightarrow> N < SIZE_MAX"
proof -
  assume "reservable N s"
  then have "unat N < unat SIZE_MAX"
    by (simp add: reservable_def string_max_size_def SIZE_MAX_def unsigned_minus_1_eq_mask
          mask_eq_exp_minus_1)
  then show ?thesis
    by (simp add: word_less_nat_alt)
qed

lemma Body_reserve_reservable: "reservable N s \<Longrightarrow> Body_reserve (unat N) s = (Inr (), s)"
  by (simp add: reservable_def Body_reserve_def)

lemma ReadContent_header:
  "GetNextFrameOnChannel next_frame ch s = Some (Inr header, s1) \<Longrightarrow>
   payload header = Properties N props \<Longrightarrow> reservable N s1 \<Longrightarrow>
   ReadContent next_frame ch s =
     io_bind (ReadContent_loop next_frame ch (unat N) 0 [])
       (\<lambda>body. io_return (SetMessageProperties (BasicMessage_Create\<lparr>Body := body\<rparr>) props)) s1"
  by (simp add: ReadContent_def io_bind_def io_lift_def frame_type_header is_header_def Let_def
        BasicMessage_Create_def reservable_SIZE_MAX Body_reserve_reservable)

lemma queued_free_store: "free_store (queued q) = 1048576"
  by (simp add: queued_def example_pool_def)

lemma reservable_5: "reservable 5 (queued q)"
  by (simp add: reservable_def string_max_size_def queued_free_store)

text \<open>
  C5, where it fails.  The first frame read is a queued \<^verbatim>\<open>channel.close\<close>, which is
  not a header; what is raised is the exception mapped from the close method, not the
  protocol violation.  And after a header that declares a body of \<open>2^64 - 2\<close> bytes a
  \<^verbatim>\<open>basic.deliver\<close> is queued, a frame that is not a body frame and comes before the
  bytes declared; what is raised is \<^verbatim>\<open>std::length_error\<close>, from the reserve of the
  body, and the frame stays queued.
\<close>

theorem ReadContent_other_exception_counterexample:
  "first_on_channel 1 (m_frame_queue (queued [channel_close_frame])) = Some channel_close_frame \<and>
   \<not> is_header channel_close_frame \<and>
   ReadContent no_frame 1 (queued [channel_close_frame]) =
     Some (Inl (AmqpException (Channel_Close 404 ''NOT_FOUND'' 60 40)),
           sent 1 Channel_Close_Ok (set_availability 1 CS_Closed (queued []))) \<and>
   payload oversize_header_frame = Properties (2 ^ 64 - 2) example_properties \<and>
   \<not> is_body deliver_frame \<and>
   ReadContent no_frame 1 (queued [oversize_header_frame, deliver_frame]) =
     Some (Inl LengthError, queued [deliver_frame])"
proof -
  have f: "first_on_channel 1 (m_frame_queue (queued [channel_close_frame])) = Some channel_close_frame"
    by (simp add: first_on_channel_def queued_simps channel_close_frame_def)
  have c: "is_channel_close channel_close_frame" "\<not> is_header channel_close_frame"
    by (simp_all add: frame_kinds channel_close_frame_def)
  have r: "unat (1 :: amqp_channel_t) < length (m_channels (queued [channel_close_frame]))"
    by (simp add: queued_simps example_pool_def)
  have "ReadContent no_frame 1 (queued [channel_close_frame]) =
     Some (Inl (raised_on_channel_close channel_close_frame (queued [channel_close_frame])),
           sent 1 Channel_Close_Ok (set_availability 1 CS_Closed
             (without_first_on_channel 1 (queued [channel_close_frame]))))"
    using f c r
    by (simp add: ReadContent_def io_bind_def GetNextFrameOnChannel_channel_close del: One_nat_def)
  then have a: "ReadContent no_frame 1 (queued [channel_close_frame]) =
     Some (Inl (AmqpException (Channel_Close 404 ''NOT_FOUND'' 60 40)),
           sent 1 Channel_Close_Ok (set_availability 1 CS_Closed (queued [])))"
    by (simp add: raised_on_channel_close_def queued_simps example_send_status channel_close_frame_def)
  have p: "payload oversize_header_frame = Properties (2 ^ 64 - 2) example_properties"
    by (simp add: oversize_header_frame_def)
  have h: "GetNextFrameOnChannel no_frame 1 (queued [oversize_header_frame, deliver_frame]) =
      Some (Inr oversize_header_frame, queued [deliver_frame])"
    by (rule fetch_queued [THEN trans])
       (simp_all add: first_on_channel_def oversize_header_frame_def deliver_frame_def frame_kinds)
  have big: "unat (body_size (payload oversize_header_frame)) = 18446744073709551614"
    by (simp add: oversize_header_frame_def)
  have t: "frame_type oversize_header_frame = AMQP_FRAME_HEADER"
    "body_size (payload oversize_header_frame) < SIZE_MAX"
    "Body_reserve (unat (body_size (payload oversize_header_frame))) s = (Inl LengthError, s)" for s
    by (simp_all add: big Body_reserve_def string_max_size_def word_less_nat_alt SIZE_MAX_def
          unsigned_minus_1_eq_mask mask_eq_exp_minus_1)
       (simp add: oversize_header_frame_def frame_type_def frame_types)
  have b: "ReadContent no_frame 1 (queued [oversize_header_frame, deliver_frame]) =
     Some (Inl LengthError, queued [deliver_frame])"
    by (simp add: ReadContent_def io_bind_def io_lift_def h t Let_def)
  have d: "\<not> is_body deliver_frame"
    by (simp add: is_body_def deliver_frame_def)
  from f c a p d b show ?thesis by simp
qed

text \<open>
  C5, as the code has it.  The next frame of the channel is a header that declares a
  body size \<open>N\<close>, one that the body of the message can reserve, and body frames follow.
  Then the message returned has as its body the concatenation of the fragments, in
  order, up to the first one with which the bytes received reach \<open>N\<close>.  A first frame
  read that is not a header, and a frame read before \<open>N\<close> bytes are there that is not a
  body frame, raise the protocol violation, with one exception, in either place: a
  \<^verbatim>\<open>channel.close\<close> method taken from the frame queue.  Then the channel, which has
  a slot in the table, is marked \<open>Closed\<close>, \<^verbatim>\<open>channel.close-ok\<close> is sent and the
  exception mapped from the close method is raised, or the error of the transport when
  that send fails.
\<close>

theorem ReadContent_reassembles:
  "(GetNextFrameOnChannel next_frame ch s = Some (Inr header, s1) \<and>
    payload header = Properties N props \<and> reservable N s1 \<and>
    fetch_frames (GetNextFrameOnChannel next_frame ch) (length bodies) s1 = Some (bodies, s') \<and>
    list_all is_body bodies \<and>
    (\<forall>k < length bodies. fragments_length (take k bodies) < unat N) \<and>
    unat N \<le> fragments_length bodies \<longrightarrow>
      ReadContent next_frame ch s =
        Some (Inr (SetMessageProperties (BasicMessage_Create\<lparr>Body := fragments bodies\<rparr>) props), s') \<and>
      Body (SetMessageProperties (BasicMessage_Create\<lparr>Body := fragments bodies\<rparr>) props) =
        fragments bodies) \<and>
   (GetNextFrameOnChannel next_frame ch s = Some (Inr frame, s') \<and> \<not> is_header frame \<longrightarrow>
      ReadContent next_frame ch s =
        Some (Inl (RuntimeError
          ''Channel::BasicConsumeMessage: received unexpected frame type (was expected AMQP_FRAME_HEADER)''), s')) \<and>
   (GetNextFrameOnChannel next_frame ch s = Some (Inr header, s1) \<and>
    payload header = Properties N props \<and> reservable N s1 \<and>
    fetch_frames (GetNextFrameOnChannel next_frame ch) (Suc (length bodies)) s1 =
      Some (bodies @ [frame], s') \<and>
    list_all is_body bodies \<and> fragments_length bodies < unat N \<and> \<not> is_body frame \<longrightarrow>
      ReadContent next_frame ch s =
        Some (Inl (RuntimeError
          ''Channel::BasicConsumeMessage: received unexpected frame type (was expecting AMQP_FRAME_BODY)''), s')) \<and>
   (first_on_channel ch (m_frame_queue s) = Some frame \<and> is_channel_close frame \<and>
    unat ch < length (m_channels s) \<longrightarrow>
      ReadContent next_frame ch s =
        Some (Inl (raised_on_channel_close frame s),
              sent ch Channel_Close_Ok
                (set_availability ch CS_Closed (without_first_on_channel ch s)))) \<and>
   (GetNextFrameOnChannel next_frame ch s = Some (Inr header, s1) \<and>
    payload header = Properties N props \<and> reservable N s1 \<and>
    fetch_frames (GetNextFrameOnChannel next_frame ch) (length bodies) s1 = Some (bodies, s2) \<and>
    list_all is_body bodies \<and> fragments_length bodies < unat N \<and>
    first_on_channel ch (m_frame_queue s2) = Some frame \<and> is_channel_close frame \<and>
    unat ch < length (m_channels s2) \<longrightarrow>
      ReadContent next_frame ch s =
        Some (Inl (raised_on_channel_close frame s2),
              sent ch Channel_Close_Ok
                (set_availability ch CS_Closed (without_first_on_channel ch s2))))"
proof -
  let ?fetch = "GetNextFrameOnChannel next_frame ch"
  have c1: "ReadContent next_frame ch s =
        Some (Inr (SetMessageProperties (BasicMessage_Create\<lparr>Body := fragments bodies\<rparr>) props), s') \<and>
      Body (SetMessageProperties (BasicMessage_Create\<lparr>Body := fragments bodies\<rparr>) props) =
        fragments bodies"
    if first: "?fetch s = Some (Inr header, s1)"
      and hdr: "payload header = Properties N props" "reservable N s1"
      and rest: "fetch_frames ?fetch (length bodies) s1 = Some (bodies, s')"
      and bodies: "list_all is_body bodies"
        "\<forall>k < length bodies. fragments_length (take k bodies) < unat N"
        "unat N \<le> fragments_length bodies"
  proof -
    have "ReadContent_loop next_frame ch (unat N) 0 [] s1 = Some (Inr ([] @ fragments bodies), s')"
      using rest bodies by (intro ReadContent_loop_bodies) simp_all
    then show ?thesis
      using ReadContent_header [OF first hdr]
      by (simp add: io_bind_def io_return_def Body_SetMessageProperties)
  qed
  have c2: "ReadContent next_frame ch s =
        Some (Inl (RuntimeError
          ''Channel::BasicConsumeMessage: received unexpected frame type (was expected AMQP_FRAME_HEADER)''), s')"
    if "?fetch s = Some (Inr frame, s')" "\<not> is_header frame"
    using that by (simp add: ReadContent_def io_bind_def frame_type_header)
  have c3: "ReadContent next_frame ch s =
        Some (Inl (RuntimeError
          ''Channel::BasicConsumeMessage: received unexpected frame type (was expecting AMQP_FRAME_BODY)''), s')"
    if first: "?fetch s = Some (Inr header, s1)"
      and hdr: "payload header = Properties N props" "reservable N s1"
      and rest: "fetch_frames ?fetch (Suc (length bodies)) s1 = Some (bodies @ [frame], s')"
      and bodies: "list_all is_body bodies" "fragments_length bodies < unat N" "\<not> is_body frame"
  proof -
    have "ReadContent_loop next_frame ch (unat N) 0 [] s1 =
        Some (Inl (RuntimeError
          ''Channel::BasicConsumeMessage: received unexpected frame type (was expecting AMQP_FRAME_BODY)''), s')"
      using rest bodies by (intro ReadContent_loop_unexpected) simp_all
    then show ?thesis
      using ReadContent_header [OF first hdr] by (simp add: io_bind_def)
  qed
  have c4: "ReadContent next_frame ch s =
        Some (Inl (raised_on_channel_close frame s),
              sent ch Channel_Close_Ok
                (set_availability ch CS_Closed (without_first_on_channel ch s)))"
    if "first_on_channel ch (m_frame_queue s) = Some frame" "is_channel_close frame"
      "unat ch < length (m_channels s)"
    using that by (simp add: ReadContent_def io_bind_def GetNextFrameOnChannel_channel_close)
  have c5: "ReadContent next_frame ch s =
        Some (Inl (raised_on_channel_close frame s2),
              sent ch Channel_Close_Ok
                (set_availability ch CS_Closed (without_first_on_channel ch s2)))"
    if first: "?fetch s = Some (Inr header, s1)"
      and hdr: "payload header = Properties N props" "reservable N s1"
      and rest: "fetch_frames ?fetch (length bodies) s1 = Some (bodies, s2)"
      and bodies: "list_all is_body bodies" "fragments_length bodies < unat N"
      and close: "first_on_channel ch (m_frame_queue s2) = Some frame" "is_channel_close frame"
        "unat ch < length (m_channels s2)"
  proof -
    from close have "?fetch s2 =
        Some (Inl (raised_on_channel_close frame s2),
              sent ch Channel_Close_Ok
                (set_availability ch CS_Closed (without_first_on_channel ch s2)))"
      by (rule GetNextFrameOnChannel_channel_close)
    with rest bodies have "ReadContent_loop next_frame ch (unat N) 0 [] s1 =
        Some (Inl (raised_on_channel_close frame s2),
              sent ch Channel_Close_Ok
                (set_availability ch CS_Closed (without_first_on_channel ch s2)))"
      by (intro ReadContent_loop_raises) simp_all
    then show ?thesis
      using ReadContent_header [OF first hdr] by (simp add: io_bind_def)
  qed
  from c1 c2 c3 c4 c5 show ?thesis by blast
qed

theorem ReadContent_reassembles_witness:
  "fetch_frames (GetNextFrameOnChannel no_frame 1) 3
     (queued [header_frame, other_channel_frame, body_frame_abc, body_frame_de]) =
     Some ([header_frame, body_frame_abc, body_frame_de], queued [other_channel_frame]) \<and>
   reservable 5 (queued [other_channel_frame, body_frame_abc, body_frame_de]) \<and>
   ReadContent no_frame 1 (queued [header_frame, other_channel_frame, body_frame_abc, body_frame_de]) =
     Some (Inr (SetMessageProperties (BasicMessage_Create\<lparr>Body := ''abcde''\<rparr>) example_properties),
           queued [other_channel_frame]) \<and>
   ReadContent no_frame 1 (queued [body_frame_abc]) =
     Some (Inl (RuntimeError
       ''Channel::BasicConsumeMessage: received unexpected frame type (was expected AMQP_FRAME_HEADER)''),
       queued []) \<and>
   ReadContent no_frame 1 (queued [header_frame, body_frame_abc, deliver_frame]) =
     Some (Inl (RuntimeError
       ''Channel::BasicConsumeMessage: received unexpected frame type (was expecting AMQP_FRAME_BODY)''),
       queued []) \<and>
   ReadContent no_frame 1 (queued [channel_close_frame, header_frame]) =
     Some (Inl (AmqpException (Channel_Close 404 ''NOT_FOUND'' 60 40)),
           sent 1 Channel_Close_Ok (set_availability 1 CS_Closed (queued [header_frame]))) \<and>
   ReadContent no_frame 1 (send_failing (queued [header_frame, body_frame_abc, channel_close_frame])) =
     Some (Inl (AmqpLibraryException (- 9)),
           sent 1 Channel_Close_Ok (set_availability 1 CS_Closed (send_failing (queued []))))"
proof -
  let ?fetch = "GetNextFrameOnChannel no_frame 1"
  have f1: "?fetch (queued [header_frame, other_channel_frame, body_frame_abc, body_frame_de]) =
      Some (Inr header_frame, queued [other_channel_frame, body_frame_abc, body_frame_de])"
    by (rule fetch_queued [THEN trans]) (simp_all add: first_on_channel_def example_frames frame_kinds)
  have f2: "?fetch (queued [other_channel_frame, body_frame_abc, body_frame_de]) =
      Some (Inr body_frame_abc, queued [other_channel_frame, body_frame_de])"
    by (rule fetch_queued [THEN trans]) (simp_all add: first_on_channel_def example_frames frame_kinds)
  have f3: "?fetch (queued [other_channel_frame, body_frame_de]) =
      Some (Inr body_frame_de, queued [other_channel_frame])"
    by (rule fetch_queued [THEN trans]) (simp_all add: first_on_channel_def example_frames frame_kinds)
  have h0: "fetch_frames ?fetch 3
      (queued [header_frame, other_channel_frame, body_frame_abc, body_frame_de]) =
      Some ([header_frame, body_frame_abc, body_frame_de], queued [other_channel_frame])"
    by (simp add: f1 f2 f3 numeral_3_eq_3)
  have h1: "fetch_frames ?fetch (length [body_frame_abc, body_frame_de])
      (queued [other_channel_frame, body_frame_abc, body_frame_de]) =
      Some ([body_frame_abc, body_frame_de], queued [other_channel_frame])"
    by (simp add: f2 f3)
  have h2: "payload header_frame = Properties 5 example_properties"
    by (simp add: header_frame_def)
  have h3: "list_all is_body [body_frame_abc, body_frame_de]"
    by (simp add: is_body_def example_frames)
  have h4: "\<forall>k < length [body_frame_abc, body_frame_de].
      fragments_length (take k [body_frame_abc, body_frame_de]) < unat (5 :: 64 word)"
  proof (intro allI impI)
    fix k assume "k < length [body_frame_abc, body_frame_de]"
    then have "k = 0 \<or> k = 1" by auto
    then show "fragments_length (take k [body_frame_abc, body_frame_de]) < unat (5 :: 64 word)"
      by (auto simp: fragments_length_def fragment_length_def example_frames)
  qed
  have h5: "unat (5 :: 64 word) \<le> fragments_length [body_frame_abc, body_frame_de]"
    by (simp add: fragments_length_def fragment_length_def example_frames)
  have frag: "fragments [body_frame_abc, body_frame_de] = ''abcde''"
    by (simp add: fragments_def example_frames)
  have g1: "?fetch (queued [body_frame_abc]) = Some (Inr body_frame_abc, queued [])"
    by (rule fetch_queued [THEN trans]) (simp_all add: first_on_channel_def example_frames frame_kinds)
  have g2: "\<not> is_header body_frame_abc"
    by (simp add: is_header_def example_frames)
  have k1: "?fetch (queued [header_frame, body_frame_abc, deliver_frame]) =
      Some (Inr header_frame, queued [body_frame_abc, deliver_frame])"
    by (rule fetch_queued [THEN trans]) (simp_all add: first_on_channel_def example_frames frame_kinds)
  have k2: "?fetch (queued [body_frame_abc, deliver_frame]) =
      Some (Inr body_frame_abc, queued [deliver_frame])"
    by (rule fetch_queued [THEN trans]) (simp_all add: first_on_channel_def example_frames frame_kinds)
  have k3: "?fetch (queued [deliver_frame]) = Some (Inr deliver_frame, queued [])"
    by (rule fetch_queued [THEN trans]) (simp_all add: first_on_channel_def example_frames frame_kinds)
  have k: "fetch_frames ?fetch (Suc (length [body_frame_abc]))
      (queued [body_frame_abc, deliver_frame]) =
      Some ([body_frame_abc] @ [deliver_frame], queued [])"
    by (simp add: k2 k3)
  have k4: "list_all is_body [body_frame_abc]" "fragments_length [body_frame_abc] < unat (5 :: 64 word)"
    "\<not> is_body deliver_frame"
    by (simp_all add: is_body_def fragments_length_def fragment_length_def example_frames)
  have m1: "first_on_channel 1 (m_frame_queue (queued [channel_close_frame, header_frame])) =
      Some channel_close_frame"
    "is_channel_close channel_close_frame"
    "unat (1 :: amqp_channel_t) < length (m_channels (queued [channel_close_frame, header_frame]))"
    by (simp_all add: first_on_channel_def queued_simps example_frames frame_kinds example_pool_def)
  have m2: "raised_on_channel_close channel_close_frame (queued [channel_close_frame, header_frame]) =
      AmqpException (Channel_Close 404 ''NOT_FOUND'' 60 40)"
    "without_first_on_channel 1 (queued [channel_close_frame, header_frame]) = queued [header_frame]"
    by (simp_all add: raised_on_channel_close_def queued_simps example_send_status example_frames)
  let ?failing = "\<lambda>q. send_failing (queued q)"
  have n1: "?fetch (?failing [header_frame, body_frame_abc, channel_close_frame]) =
      Some (Inr header_frame, ?failing [body_frame_abc, channel_close_frame])"
    by (simp add: GetNextFrameOnChannel_queued send_failing_simps queued_simps first_on_channel_def
          example_frames frame_kinds)
  have n2: "?fetch (?failing [body_frame_abc, channel_close_frame]) =
      Some (Inr body_frame_abc, ?failing [channel_close_frame])"
    by (simp add: GetNextFrameOnChannel_queued send_failing_simps queued_simps first_on_channel_def
          example_frames frame_kinds)
  have n3: "fetch_frames ?fetch (length [body_frame_abc]) (?failing [body_frame_abc, channel_close_frame]) =
      Some ([body_frame_abc], ?failing [channel_close_frame])"
    by (simp add: n2)
  have n4: "reservable 5 (?failing [body_frame_abc, channel_close_frame])"
    by (simp add: reservable_def string_max_size_def send_failing_def queued_free_store)
  have n5: "first_on_channel 1 (m_frame_queue (?failing [channel_close_frame])) = Some channel_close_frame"
    "unat (1 :: amqp_channel_t) < length (m_channels (?failing [channel_close_frame]))"
    by (simp_all add: send_failing_simps first_on_channel_def queued_simps example_frames example_pool_def)
  have n6: "raised_on_channel_close channel_close_frame (?failing [channel_close_frame]) =
      AmqpLibraryException (- 9)"
    "without_first_on_channel 1 (?failing [channel_close_frame]) = ?failing []"
    by (simp_all add: raised_on_channel_close_def send_failing_simps queued_simps example_frames)
  note inst = ReadContent_reassembles [where next_frame = no_frame and ch = 1 and N = 5
      and props = example_properties and header = header_frame]
  from inst [where bodies = "[body_frame_abc, body_frame_de]"
        and s = "queued [header_frame, other_channel_frame, body_frame_abc, body_frame_de]"
        and ?s1.0 = "queued [other_channel_frame, body_frame_abc, body_frame_de]"
        and s' = "queued [other_channel_frame]", THEN conjunct1] f1 h1 h2 h3 h4 h5 reservable_5
  have w1: "ReadContent no_frame 1
      (queued [header_frame, other_channel_frame, body_frame_abc, body_frame_de]) =
     Some (Inr (SetMessageProperties (BasicMessage_Create\<lparr>Body := ''abcde''\<rparr>) example_properties),
           queued [other_channel_frame])"
    by (simp only: frag)
  from inst [where s = "queued [body_frame_abc]" and s' = "queued []" and frame = body_frame_abc,
        THEN conjunct2, THEN conjunct1] g1 g2
  have w2: "ReadContent no_frame 1 (queued [body_frame_abc]) =
     Some (Inl (RuntimeError
       ''Channel::BasicConsumeMessage: received unexpected frame type (was expected AMQP_FRAME_HEADER)''),
       queued [])"
    by blast
  from inst [where bodies = "[body_frame_abc]" and frame = deliver_frame
        and s = "queued [header_frame, body_frame_abc, deliver_frame]"
        and ?s1.0 = "queued [body_frame_abc, deliver_frame]" and s' = "queued []",
        THEN conjunct2, THEN conjunct2, THEN conjunct1] k1 k h2 k4 reservable_5
  have w3: "ReadContent no_frame 1 (queued [header_frame, body_frame_abc, deliver_frame]) =
     Some (Inl (RuntimeError
       ''Channel::BasicConsumeMessage: received unexpected frame type (was expecting AMQP_FRAME_BODY)''),
       queued [])"
    by blast
  from inst [where s = "queued [channel_close_frame, header_frame]" and frame = channel_close_frame,
        THEN conjunct2, THEN conjunct2, THEN conjunct2, THEN conjunct1] m1
  have w4: "ReadContent no_frame 1 (queued [channel_close_frame, header_frame]) =
     Some (Inl (AmqpException (Channel_Close 404 ''NOT_FOUND'' 60 40)),
           sent 1 Channel_Close_Ok (set_availability 1 CS_Closed (queued [header_frame])))"
    by (simp add: m2)
  from inst [where bodies = "[body_frame_abc]" and frame = channel_close_frame
        and s = "?failing [header_frame, body_frame_abc, channel_close_frame]"
        and ?s1.0 = "?failing [body_frame_abc, channel_close_frame]"
        and ?s2.0 = "?failing [channel_close_frame]",
        THEN conjunct2, THEN conjunct2, THEN conjunct2, THEN conjunct2] n1 h2 n4 n3 k4 n5 m1(2)
  have w5: "ReadContent no_frame 1 (?failing [header_frame, body_frame_abc, channel_close_frame]) =
     Some (Inl (AmqpLibraryException (- 9)),
           sent 1 Channel_Close_Ok (set_availability 1 CS_Closed (?failing [])))"
    by (simp add: n6)
  from h0 w1 w2 w3 w4 w5 reservable_5 show ?thesis by simp
qed

lemma ReadContent_example:
  "ReadContent no_frame 1 (queued [header_frame, body_frame_abc, body_frame_de, ack_frame]) =
     Some (Inr (SetMessageProperties (BasicMessage_Create\<lparr>Body := ''abcde''\<rparr>) example_properties),
           queued [ack_frame])"
proof -
  let ?fetch = "GetNextFrameOnChannel no_frame 1"
  have f1: "?fetch (queued [header_frame, body_frame_abc, body_frame_de, ack_frame]) =
      Some (Inr header_frame, queued [body_frame_abc, body_frame_de, ack_frame])"
    by (rule fetch_queued [THEN trans]) (simp_all add: first_on_channel_def example_frames frame_kinds)
  have f2: "?fetch (queued [body_frame_abc, body_frame_de, ack_frame]) =
      Some (Inr body_frame_abc, queued [body_frame_de, ack_frame])"
    by (rule fetch_queued [THEN trans]) (simp_all add: first_on_channel_def example_frames frame_kinds)
  have f3: "?fetch (queued [body_frame_de, ack_frame]) = Some (Inr body_frame_de, queued [ack_frame])"
    by (rule fetch_queued [THEN trans]) (simp_all add: first_on_channel_def example_frames frame_kinds)
  have "fetch_frames ?fetch (length [body_frame_abc, body_frame_de])
      (queued [body_frame_abc, body_frame_de, ack_frame]) =
      Some ([body_frame_abc, body_frame_de], queued [ack_frame])"
    by (simp add: f2 f3 numeral_2_eq_2)
  moreover have "list_all is_body [body_frame_abc, body_frame_de]"
    by (simp add: is_body_def example_frames)
  moreover have "\<forall>k < length [body_frame_abc, body_frame_de].
      0 + fragments_length (take k [body_frame_abc, body_frame_de]) < unat (5 :: 64 word)"
  proof (intro allI impI)
    fix k assume "k < length [body_frame_abc, body_frame_de]"
    then have "k = 0 \<or> k = 1" by auto
    then show "0 + fragments_length (take k [body_frame_abc, body_frame_de]) < unat (5 :: 64 word)"
      by (auto simp: fragments_length_def fragment_length_def example_frames)
  qed
  moreover have "unat (5 :: 64 word) \<le> 0 + fragments_length [body_frame_abc, body_frame_de]"
    by (simp add: fragments_length_def fragment_length_def example_frames)
  ultimately have "ReadContent_loop no_frame 1 (unat (5 :: 64 word)) 0 []
      (queued [body_frame_abc, body_frame_de, ack_frame]) =
      Some (Inr ([] @ fragments [body_frame_abc, body_frame_de]), queued [ack_frame])"
    by (rule ReadContent_loop_bodies)
  moreover have "fragments [body_frame_abc, body_frame_de] = ''abcde''"
    by (simp add: fragments_def example_frames)
  moreover have "payload header_frame = Properties 5 example_properties"
    by (simp add: header_frame_def)
  ultimately show ?thesis
    using ReadContent_header [OF f1, of 5 example_properties] reservable_5
    by (simp add: io_bind_def io_return_def)
qed

section \<open>Properties of the publisher confirms\<close>

lemma released_in_pool: "unat ch < length (m_channels s) \<Longrightarrow> in_pool ch (released ch s)"
  by (simp add: in_pool_def released_def MaybeReleaseBuffersOnChannel_def set_availability_def set_availability_at_def)

lemma released_offered: "buffers_offered ch s (released ch s)"
  by (auto simp: buffers_offered_def released_def MaybeReleaseBuffersOnChannel_def
        set_availability_def set_availability_at_def find_if_end is_on_channel_def eq_commute [of "length _"])

lemma released_confirm_state:
  "unat ch < length (m_channels s) \<Longrightarrow> confirm_state ch (released ch s) = confirm_state ch s"
  by (simp add: confirm_state_def released_def MaybeReleaseBuffersOnChannel_def set_availability_def set_availability_at_def)

lemma released_queue: "m_frame_queue (released ch s) = m_frame_queue s"
  by (simp add: released_def MaybeReleaseBuffersOnChannel_def set_availability_def set_availability_at_def)

lemma update_state_length [simp]: "length (m_channels (update_state ch f s)) = length (m_channels s)"
  by (simp add: update_state_def)

lemma GetAckOnChannel_banked:
  "unat ch < length (m_channels s) \<Longrightarrow> 0 < unconsumed_ack (m_channels s ! unat ch) \<Longrightarrow>
   GetAckOnChannel get_method next_frame ch s =
     Some (Inr (), update_state ch (\<lambda>state. state\<lparr>unconsumed_ack := unconsumed_ack state - 1\<rparr>) s)"
  by (simp add: GetAckOnChannel_def)

lemma GetAckOnChannel_nack:
  assumes "unat ch < length (m_channels s)" "unconsumed_ack (m_channels s ! unat ch) = 0"
    and "get_method [ch] PUBLISH_ACK s = Some (Inr response, s1)"
    and "payload response = Method (Basic_Nack t mult rq)"
    and "unat ch < length (m_channels s1)"
  shows "GetAckOnChannel get_method next_frame ch s =
     Some (Inl (MessageRejectedException t),
           released ch (update_state ch (\<lambda>state. state\<lparr>last_delivery_tag := t\<rparr>) s1))"
  using assms
  by (simp add: GetAckOnChannel_def io_bind_def io_lift_def method_numbers Let_def
        ReturnChannel_def released_def)

lemma GetAckOnChannel_ack:
  assumes "unat ch < length (m_channels s)" "unconsumed_ack (m_channels s ! unat ch) = 0"
    and "get_method [ch] PUBLISH_ACK s = Some (Inr response, s1)"
    and "payload response = Method (Basic_Ack t mult)"
    and "unat ch < length (m_channels s1)"
  shows "GetAckOnChannel get_method next_frame ch s =
     Some (Inr (),
           released ch
             (if t \<le> last_delivery_tag (m_channels s1 ! unat ch) then s1
              else if t - last_delivery_tag (m_channels s1 ! unat ch) > 1 then
                update_state ch (\<lambda>state. state\<lparr>unconsumed_ack :=
                    t - last_delivery_tag (m_channels s1 ! unat ch) - 1\<rparr>)
                  (update_state ch (\<lambda>state. state\<lparr>last_delivery_tag := t\<rparr>) s1)
              else update_state ch (\<lambda>state. state\<lparr>last_delivery_tag := t\<rparr>) s1))"
  using assms
  by (simp add: GetAckOnChannel_def io_bind_def io_lift_def method_numbers Let_def
        ReturnChannel_def released_def)

lemma GetAckOnChannel_return:
  assumes "unat ch < length (m_channels s)" "unconsumed_ack (m_channels s ! unat ch) = 0"
    and "get_method [ch] PUBLISH_ACK s = Some (Inr response, s1)"
    and "payload response = Method (Basic_Return code text exch rk)"
    and "ReadContent next_frame ch s1 = Some (Inr message, s2)"
    and "get_method [ch] BASIC_ACK s2 = Some (Inr ack, s3)"
    and "unat ch < length (m_channels s3)"
  shows "GetAckOnChannel get_method next_frame ch s =
     Some (Inl (MessageReturnedException message (ucast code) text exch rk), released ch s3)"
  using assms
  by (simp add: GetAckOnChannel_def io_bind_def io_lift_def io_return_def method_numbers Let_def
        CreateMessageReturnedException_def ReturnChannel_def released_def)

lemma confirm_state_kept_refl: "confirm_state_kept ch s s"
  by (simp add: confirm_state_kept_def)

lemma confirm_state_kept_trans:
  "confirm_state_kept ch s s1 \<Longrightarrow> confirm_state_kept ch s1 s2 \<Longrightarrow> confirm_state_kept ch s s2"
  by (simp add: confirm_state_kept_def)

lemma keeps_confirm_stateD:
  assumes "keeps_confirm_state ch f" "f s = Some (Inr r, s')" "unat ch < length (m_channels s)"
  shows "unat ch < length (m_channels s') \<and> confirm_state ch s' = confirm_state ch s"
proof -
  from assms(1) have "f s = Some (Inr r, s') \<longrightarrow> confirm_state_kept ch s s'"
    unfolding keeps_confirm_state_def by blast
  with assms(2,3) show ?thesis
    by (simp add: confirm_state_kept_def)
qed

lemma GetNextFrameOnChannel_keeps:
  assumes "keeps_confirm_state ch (next_frame [ch])"
  shows "keeps_confirm_state ch (GetNextFrameOnChannel next_frame ch)"
proof -
  have "confirm_state_kept ch s s'" if "GetNextFrameOnChannel next_frame ch s = Some (Inr r, s')"
    for s r s'
  proof (cases "first_on_channel ch (m_frame_queue s)")
    case None
    with that assms show ?thesis
      by (simp add: GetNextFrameOnChannel_not_queued keeps_confirm_state_def)
  next
    case (Some frame)
    with that have "s' = without_first_on_channel ch s"
      by (auto simp: GetNextFrameOnChannel_queued split: if_splits prod.splits sum.splits)
    then show ?thesis
      by (simp add: confirm_state_kept_def confirm_state_def without_first_on_channel_def)
  qed
  then show ?thesis by (simp add: keeps_confirm_state_def)
qed

lemma ReadContent_loop_keeps_step:
  assumes returns: "ReadContent_loop next_frame ch n r b s = Some y"
  shows "keeps_confirm_state ch (next_frame [ch]) \<longrightarrow>
   (\<forall>body. fst y = Inr body \<longrightarrow> confirm_state_kept ch s (snd y))"
proof (rule ReadContent_loop.raw_induct [where P = "\<lambda>next_frame ch n r b s y.
    keeps_confirm_state ch (next_frame [ch]) \<longrightarrow>
    (\<forall>body. fst y = Inr body \<longrightarrow> confirm_state_kept ch s (snd y))", OF _ returns])
  fix loop :: "next_frame_t \<Rightarrow> amqp_channel_t \<Rightarrow> nat \<Rightarrow> nat \<Rightarrow> string \<Rightarrow> ChannelImpl
      \<Rightarrow> string outcome option"
    and next_frame ch n r b s y
  assume IH: "\<And>next_frame ch n r b s y. loop next_frame ch n r b s = Some y \<Longrightarrow>
      keeps_confirm_state ch (next_frame [ch]) \<longrightarrow>
      (\<forall>body. fst y = Inr body \<longrightarrow> confirm_state_kept ch s (snd y))"
    and step: "(if r < n then
        (case GetNextFrameOnChannel next_frame ch s of
           None \<Rightarrow> None
         | Some (Inl e, s') \<Rightarrow> Some (Inl e, s')
         | Some (Inr frame, s') \<Rightarrow>
             if frame_type frame \<noteq> AMQP_FRAME_BODY then
               Some (Inl (RuntimeError
                 ''Channel::BasicConsumeMessage: received unexpected frame type (was expecting AMQP_FRAME_BODY)''), s')
             else loop next_frame ch n
                    (r + length (body_fragment (payload frame)))
                    (b @ body_fragment (payload frame)) s')
      else Some (Inr b, s)) = Some y"
  show "keeps_confirm_state ch (next_frame [ch]) \<longrightarrow>
      (\<forall>body. fst y = Inr body \<longrightarrow> confirm_state_kept ch s (snd y))"
  proof (intro impI allI)
    fix body
    assume keeps: "keeps_confirm_state ch (next_frame [ch])" and ok: "fst y = Inr body"
    show "confirm_state_kept ch s (snd y)"
    proof (cases "r < n")
      case False
      with step show ?thesis
        by (auto simp: confirm_state_kept_refl)
    next
      case True
      with step ok obtain frame s1 where
        f: "GetNextFrameOnChannel next_frame ch s = Some (Inr frame, s1)" and
        rec: "loop next_frame ch n (r + length (body_fragment (payload frame)))
                (b @ body_fragment (payload frame)) s1 = Some y"
        by (auto split: option.splits sum.splits prod.splits if_splits)
      from f keeps have "confirm_state_kept ch s s1"
        using GetNextFrameOnChannel_keeps [of ch next_frame] by (auto simp: keeps_confirm_state_def)
      moreover from IH [OF rec] keeps ok have "confirm_state_kept ch s1 (snd y)"
        by blast
      ultimately show ?thesis by (rule confirm_state_kept_trans)
    qed
  qed
qed

lemma ReadContent_loop_keeps:
  assumes "ReadContent_loop next_frame ch n r b s = Some (Inr body, s')"
    and "keeps_confirm_state ch (next_frame [ch])"
  shows "confirm_state_kept ch s s'"
  using ReadContent_loop_keeps_step [OF assms(1)] assms(2) by simp

lemma ReadContent_keeps:
  assumes "keeps_confirm_state ch (next_frame [ch])"
  shows "keeps_confirm_state ch (ReadContent next_frame ch)"
proof -
  have "confirm_state_kept ch s s'" if "ReadContent next_frame ch s = Some (Inr message, s')"
    for s message s'
  proof -
    from that obtain frame s1 body where
      f: "GetNextFrameOnChannel next_frame ch s = Some (Inr frame, s1)" and
      l: "ReadContent_loop next_frame ch (unat (body_size (payload frame))) 0 [] s1 =
            Some (Inr body, s')"
      by (auto simp: ReadContent_def io_bind_def io_return_def io_lift_def Body_reserve_def Let_def
            BasicMessage_Create_def split: option.splits sum.splits prod.splits if_splits)
    from f assms have "confirm_state_kept ch s s1"
      using GetNextFrameOnChannel_keeps [of ch next_frame] by (auto simp: keeps_confirm_state_def)
    moreover from l assms have "confirm_state_kept ch s1 s'"
      by (rule ReadContent_loop_keeps)
    ultimately show ?thesis by (rule confirm_state_kept_trans)
  qed
  then show ?thesis by (simp add: keeps_confirm_state_def)
qed

lemma queued_method_keeps: "keeps_confirm_state ch (queued_method channels expected)"
  by (auto simp: keeps_confirm_state_def confirm_state_kept_def confirm_state_def queued_method_def
        split: option.splits)

lemma no_frame_keeps: "keeps_confirm_state ch (no_frame channels)"
  by (simp add: keeps_confirm_state_def no_frame_def)

lemma queued_method_first:
  "channel frame \<in> set channels \<Longrightarrow> payload frame = Method m \<Longrightarrow> method_number m \<in> set expected \<Longrightarrow>
   queued_method channels expected (queued (frame # q)) = Some (Inr frame, queued q)"
  by (simp add: queued_method_def queued_def)

lemma word_le_1: "\<not> 1 < d \<Longrightarrow> d \<noteq> 0 \<Longrightarrow> d = 1" for d :: "64 word"
proof -
  assume "\<not> 1 < d" "d \<noteq> 0"
  then have "unat d \<le> 1" "unat d \<noteq> 0"
    by (simp_all add: word_less_nat_alt unat_eq_0)
  then have "unat d = unat (1 :: 64 word)" by simp
  then show "d = 1" by (rule unsigned_word_eqI)
qed

lemma unat_pred: "0 < u \<Longrightarrow> unat (u - 1) = unat u - 1" for u :: "64 word"
  by (simp add: unat_minus_one word_neq_0_conv)

lemma update_state_id:
  "update_state ch (\<lambda>state. state\<lparr>unconsumed_ack := unconsumed_ack (m_channels s ! unat ch)\<rparr>) s = s"
  by (simp add: update_state_def)

lemma GetAckOnChannel_times_banked:
  "unat ch < length (m_channels s) \<Longrightarrow> k \<le> unat (unconsumed_ack (m_channels s ! unat ch)) \<Longrightarrow>
   GetAckOnChannel_times k get_method next_frame ch s =
     Some (Inr (), update_state ch
       (\<lambda>state. state\<lparr>unconsumed_ack := unconsumed_ack (m_channels s ! unat ch) - word_of_nat k\<rparr>) s)"
proof (induction k arbitrary: s)
  case 0
  then show ?case by (simp add: io_return_def update_state_id)
next
  case (Suc k)
  let ?u = "unconsumed_ack (m_channels s ! unat ch)"
  let ?s1 = "update_state ch (\<lambda>state. state\<lparr>unconsumed_ack := unconsumed_ack state - 1\<rparr>) s"
  from Suc.prems have pos: "0 < ?u"
    by (auto simp: word_less_nat_alt)
  then have first: "GetAckOnChannel get_method next_frame ch s = Some (Inr (), ?s1)"
    using Suc.prems(1) by (rule GetAckOnChannel_banked [rotated])
  have u1: "unconsumed_ack (m_channels ?s1 ! unat ch) = ?u - 1"
    using Suc.prems(1) by (simp add: update_state_def)
  have "k \<le> unat (?u - 1)"
    using Suc.prems(2) pos by (simp add: unat_pred)
  then have "GetAckOnChannel_times k get_method next_frame ch ?s1 =
      Some (Inr (), update_state ch (\<lambda>state. state\<lparr>unconsumed_ack := ?u - 1 - word_of_nat k\<rparr>) ?s1)"
    using Suc.IH [of ?s1] Suc.prems(1) by (simp add: u1)
  moreover have "update_state ch (\<lambda>state. state\<lparr>unconsumed_ack := ?u - 1 - word_of_nat k\<rparr>) ?s1 =
      update_state ch (\<lambda>state. state\<lparr>unconsumed_ack := ?u - word_of_nat (Suc k)\<rparr>) s"
    using Suc.prems(1) by (simp add: update_state_def diff_diff_eq)
  ultimately show ?case
    using first by (simp add: io_bind_def)
qed

lemma in_pool_update_state:
  "unat ch < length (m_channels s) \<Longrightarrow> confirm_state ch (released ch (update_state ch f s)) =
     (last_delivery_tag (f (m_channels s ! unat ch)), unconsumed_ack (f (m_channels s ! unat ch)))"
  by (simp add: released_confirm_state) (simp add: confirm_state_def update_state_def)

lemma released_after_update:
  "buffers_offered ch s (released ch (update_state ch f s))"
  using released_offered [of ch "update_state ch f s"]
  by (simp add: buffers_offered_def update_state_def)

text \<open>
  C1.  A channel has nothing banked and last delivery tag \<open>T0\<close>, and the wait of
  \<open>GetAckOnChannel\<close> returns a \<^verbatim>\<open>basic.ack\<close> with a tag \<open>T\<close> above \<open>T0\<close>; the wait
  itself, which is not among the sources, is taken to leave the confirm state alone.
  Then the call returns normally with last delivery tag \<open>T\<close> and \<open>T - T0 - 1\<close> banked,
  and for every \<open>k\<close> up to \<open>T - T0 - 1\<close> the next \<open>k\<close> calls return normally, whatever
  the wait and the frame fetch would do, with \<open>k\<close> fewer banked and with the frame queue
  and the transport as they were.
\<close>

theorem GetAckOnChannel_cumulative_ack:
  assumes range: "unat ch < length (m_channels s)"
    and fresh: "confirm_state ch s = (T0, 0)"
    and wait: "get_method [ch] PUBLISH_ACK s = Some (Inr response, s1)"
    and ack: "payload response = Method (Basic_Ack T mult)"
    and keeps: "keeps_confirm_state ch (get_method [ch] PUBLISH_ACK)"
    and later: "T0 < T"
  shows "\<exists>s'. GetAckOnChannel get_method next_frame ch s = Some (Inr (), s') \<and>
              confirm_state ch s' = (T, T - T0 - 1) \<and>
              (\<forall>k \<le> unat (T - T0 - 1). \<forall>get_method' next_frame'.
                 \<exists>s''. GetAckOnChannel_times k get_method' next_frame' ch s' = Some (Inr (), s'') \<and>
                       confirm_state ch s'' = (T, T - T0 - 1 - word_of_nat k) \<and>
                       m_frame_queue s'' = m_frame_queue s' \<and>
                       m_connection s'' = m_connection s')"
proof -
  from keeps_confirm_stateD [of ch "get_method [ch] PUBLISH_ACK" s response s1] keeps wait range
  have range1: "unat ch < length (m_channels s1)"
    and kept: "confirm_state ch s1 = confirm_state ch s"
    by simp_all
  from fresh have none: "unconsumed_ack (m_channels s ! unat ch) = 0"
    by (simp add: confirm_state_def)
  from kept fresh have tag1: "last_delivery_tag (m_channels s1 ! unat ch) = T0"
    and none1: "unconsumed_ack (m_channels s1 ! unat ch) = 0"
    by (simp_all add: confirm_state_def)
  let ?tagged = "update_state ch (\<lambda>state. state\<lparr>last_delivery_tag := T\<rparr>) s1"
  let ?booked = "if T - T0 > 1
                 then update_state ch (\<lambda>state. state\<lparr>unconsumed_ack := T - T0 - 1\<rparr>) ?tagged
                 else ?tagged"
  let ?s' = "released ch ?booked"
  from later have "\<not> T \<le> T0" by simp
  then have result: "GetAckOnChannel get_method next_frame ch s = Some (Inr (), ?s')"
    using GetAckOnChannel_ack [where get_method = get_method and next_frame = next_frame
        and ch = ch and s = s and response = response and ?s1.0 = s1 and t = T and mult = mult]
      range none wait ack range1
    by (simp add: tag1)
  have range': "unat ch < length (m_channels ?s')"
    using range1 by (simp add: released_def MaybeReleaseBuffersOnChannel_def set_availability_def set_availability_at_def)
  have one: "T - T0 - 1 = 0" if "\<not> 1 < T - T0"
  proof -
    from later have "T - T0 \<noteq> 0" by simp
    with that have "T - T0 = 1" by (rule word_le_1)
    then show ?thesis by simp
  qed
  have "confirm_state ch ?booked = (T, T - T0 - 1)"
    using range1 none1 one by (auto simp: confirm_state_def update_state_def)
  then have state: "confirm_state ch ?s' = (T, T - T0 - 1)"
    using range1 by (simp add: released_confirm_state)
  have waits: "\<exists>s''. GetAckOnChannel_times k get_method' next_frame' ch ?s' = Some (Inr (), s'') \<and>
      confirm_state ch s'' = (T, T - T0 - 1 - word_of_nat k) \<and>
      m_frame_queue s'' = m_frame_queue ?s' \<and> m_connection s'' = m_connection ?s'"
    if "k \<le> unat (T - T0 - 1)" for k get_method' next_frame'
  proof -
    from state have u: "unconsumed_ack (m_channels ?s' ! unat ch) = T - T0 - 1"
      and l: "last_delivery_tag (m_channels ?s' ! unat ch) = T"
      by (simp_all add: confirm_state_def)
    let ?s'' = "update_state ch (\<lambda>state. state\<lparr>unconsumed_ack := T - T0 - 1 - word_of_nat k\<rparr>) ?s'"
    have "k \<le> unat (unconsumed_ack (m_channels ?s' ! unat ch))"
      using that by (simp only: u)
    with range' have "GetAckOnChannel_times k get_method' next_frame' ch ?s' =
        Some (Inr (), update_state ch (\<lambda>state. state\<lparr>unconsumed_ack :=
          unconsumed_ack (m_channels ?s' ! unat ch) - word_of_nat k\<rparr>) ?s')"
      by (rule GetAckOnChannel_times_banked)
    then have "GetAckOnChannel_times k get_method' next_frame' ch ?s' = Some (Inr (), ?s'')"
      by (simp only: u)
    moreover have "confirm_state ch ?s'' = (T, T - T0 - 1 - word_of_nat k)"
      using range' l by (simp add: confirm_state_def update_state_def)
    moreover have "m_frame_queue ?s'' = m_frame_queue ?s'" "m_connection ?s'' = m_connection ?s'"
      by (simp_all add: update_state_def)
    ultimately show ?thesis by blast
  qed
  from result state waits show ?thesis by blast
qed

theorem GetAckOnChannel_cumulative_ack_witness:
  "unat (1 :: amqp_channel_t) < length (m_channels (queued [ack_frame])) \<and>
   confirm_state 1 (queued [ack_frame]) = (0, 0) \<and>
   queued_method [1] PUBLISH_ACK (queued [ack_frame]) = Some (Inr ack_frame, queued []) \<and>
   payload ack_frame = Method (Basic_Ack 3 True) \<and>
   keeps_confirm_state 1 (queued_method [1] PUBLISH_ACK) \<and> (0 :: 64 word) < 3 \<and>
   (\<exists>s'. GetAckOnChannel queued_method no_frame 1 (queued [ack_frame]) = Some (Inr (), s') \<and>
         confirm_state 1 s' = (3, 2) \<and>
         (\<exists>s''. GetAckOnChannel_times 2 queued_method no_frame 1 s' = Some (Inr (), s'') \<and>
                confirm_state 1 s'' = (3, 0) \<and>
                m_frame_queue s'' = m_frame_queue s' \<and> m_connection s'' = m_connection s'))"
proof -
  have h1: "unat (1 :: amqp_channel_t) < length (m_channels (queued [ack_frame]))"
    by (simp add: queued_simps example_pool_def)
  have h2: "confirm_state 1 (queued [ack_frame]) = (0, 0)"
    by (simp add: confirm_state_def queued_simps example_pool_def new_channel_state_def)
  have h3: "queued_method [1] PUBLISH_ACK (queued [ack_frame]) = Some (Inr ack_frame, queued [])"
    by (rule queued_method_first [where m = "Basic_Ack 3 True"])
       (simp_all add: ack_frame_def PUBLISH_ACK_def)
  have h4: "payload ack_frame = Method (Basic_Ack 3 True)"
    by (simp add: ack_frame_def)
  have h5: "keeps_confirm_state 1 (queued_method [1] PUBLISH_ACK)"
    by (rule queued_method_keeps)
  have h6: "(0 :: 64 word) < 3" by simp
  from GetAckOnChannel_cumulative_ack [where get_method = queued_method and next_frame = no_frame
      and ch = 1, OF h1 h2 h3 h4 h5 h6]
  obtain s' where
    r: "GetAckOnChannel queued_method no_frame 1 (queued [ack_frame]) = Some (Inr (), s')" and
    c: "confirm_state 1 s' = (3, 3 - 0 - 1)" and
    w: "\<forall>k \<le> unat (3 - 0 - 1 :: 64 word). \<forall>get_method' next_frame'.
          \<exists>s''. GetAckOnChannel_times k get_method' next_frame' 1 s' = Some (Inr (), s'') \<and>
                confirm_state 1 s'' = (3, 3 - 0 - 1 - word_of_nat k) \<and>
                m_frame_queue s'' = m_frame_queue s' \<and> m_connection s'' = m_connection s'"
    by blast
  have "(2 :: nat) \<le> unat (3 - 0 - 1 :: 64 word)" by simp
  with w have "\<exists>s''. GetAckOnChannel_times 2 queued_method no_frame 1 s' = Some (Inr (), s'') \<and>
                confirm_state 1 s'' = (3, 3 - 0 - 1 - word_of_nat 2) \<and>
                m_frame_queue s'' = m_frame_queue s' \<and> m_connection s'' = m_connection s'"
    by blast
  with r c have "\<exists>s'. GetAckOnChannel queued_method no_frame 1 (queued [ack_frame]) = Some (Inr (), s') \<and>
         confirm_state 1 s' = (3, 2) \<and>
         (\<exists>s''. GetAckOnChannel_times 2 queued_method no_frame 1 s' = Some (Inr (), s'') \<and>
                confirm_state 1 s'' = (3, 0) \<and>
                m_frame_queue s'' = m_frame_queue s' \<and> m_connection s'' = m_connection s')"
    by auto
  with h1 h2 h3 h4 h5 h6 show ?thesis by blast
qed

text \<open>
  C6.  When the wait of \<open>GetAckOnChannel\<close> returns a \<^verbatim>\<open>basic.nack\<close> with tag \<open>t\<close>,
  cumulative or not, the call raises one \<open>MessageRejectedException\<close> that carries
  \<open>t\<close>; in the state it leaves, the last delivery tag of the channel is \<open>t\<close>, nothing
  is banked, the slot is \<open>Open\<close> and the channel is the one returned last, and the
  transport was offered the buffers of the channel if no frame of it is queued.
\<close>

theorem GetAckOnChannel_nacked:
  assumes range: "unat ch < length (m_channels s)"
    and none: "unconsumed_ack (m_channels s ! unat ch) = 0"
    and wait: "get_method [ch] PUBLISH_ACK s = Some (Inr response, s1)"
    and nack: "payload response = Method (Basic_Nack t mult rq)"
    and keeps: "keeps_confirm_state ch (get_method [ch] PUBLISH_ACK)"
  shows "\<exists>s'. GetAckOnChannel get_method next_frame ch s =
                 Some (Inl (MessageRejectedException t), s') \<and>
              s' = released ch (update_state ch (\<lambda>state. state\<lparr>last_delivery_tag := t\<rparr>) s1) \<and>
              confirm_state ch s' = (t, 0) \<and> in_pool ch s' \<and> buffers_offered ch s1 s'"
proof -
  from keeps_confirm_stateD [of ch "get_method [ch] PUBLISH_ACK" s response s1] keeps wait range
  have range1: "unat ch < length (m_channels s1)"
    and kept: "confirm_state ch s1 = confirm_state ch s"
    by simp_all
  let ?s' = "released ch (update_state ch (\<lambda>state. state\<lparr>last_delivery_tag := t\<rparr>) s1)"
  have "GetAckOnChannel get_method next_frame ch s = Some (Inl (MessageRejectedException t), ?s')"
    using range none wait nack range1 by (rule GetAckOnChannel_nack)
  moreover have "confirm_state ch ?s' = (t, 0)"
    using range1 kept none by (simp add: in_pool_update_state) (simp add: confirm_state_def)
  moreover have "in_pool ch ?s'"
    using range1 by (simp add: released_in_pool)
  moreover have "buffers_offered ch s1 ?s'"
    by (rule released_after_update)
  ultimately show ?thesis by simp
qed

theorem GetAckOnChannel_nacked_witness:
  "unat (1 :: amqp_channel_t) < length (m_channels (queued [nack_frame])) \<and>
   unconsumed_ack (m_channels (queued [nack_frame]) ! unat (1 :: amqp_channel_t)) = 0 \<and>
   queued_method [1] PUBLISH_ACK (queued [nack_frame]) = Some (Inr nack_frame, queued []) \<and>
   payload nack_frame = Method (Basic_Nack 5 True False) \<and>
   keeps_confirm_state 1 (queued_method [1] PUBLISH_ACK) \<and>
   (\<exists>s'. GetAckOnChannel queued_method no_frame 1 (queued [nack_frame]) =
            Some (Inl (MessageRejectedException 5), s') \<and>
         s' = released 1 (update_state 1 (\<lambda>state. state\<lparr>last_delivery_tag := 5\<rparr>) (queued [])) \<and>
         confirm_state 1 s' = (5, 0) \<and> in_pool 1 s' \<and> buffers_offered 1 (queued []) s')"
proof -
  have h1: "unat (1 :: amqp_channel_t) < length (m_channels (queued [nack_frame]))"
    by (simp add: queued_simps example_pool_def)
  have h2: "unconsumed_ack (m_channels (queued [nack_frame]) ! unat (1 :: amqp_channel_t)) = 0"
    by (simp add: queued_simps example_pool_def new_channel_state_def)
  have h3: "queued_method [1] PUBLISH_ACK (queued [nack_frame]) = Some (Inr nack_frame, queued [])"
    by (rule queued_method_first [where m = "Basic_Nack 5 True False"])
       (simp_all add: nack_frame_def PUBLISH_ACK_def)
  have h4: "payload nack_frame = Method (Basic_Nack 5 True False)"
    by (simp add: nack_frame_def)
  have h5: "keeps_confirm_state 1 (queued_method [1] PUBLISH_ACK)"
    by (rule queued_method_keeps)
  from GetAckOnChannel_nacked [where get_method = queued_method and next_frame = no_frame
      and ch = 1, OF h1 h2 h3 h4 h5] h1 h2 h3 h4 h5
  show ?thesis by blast
qed

text \<open>
  C10.  When the wait of \<open>GetAckOnChannel\<close> returns a \<^verbatim>\<open>basic.return\<close>, the content
  is reassembled and the wait for the \<^verbatim>\<open>basic.ack\<close> that follows returns, the call
  raises \<open>MessageReturnedException\<close> with the message, the reply code, the reply text,
  the exchange and the routing key, and releases the channel.  The last delivery tag
  and the banked count of the channel are then what they were before the call, whatever
  frame the second wait returns and so whatever the tag of the acknowledgement: the
  waits and the frame read from the transport, which are not among the sources, are
  taken to leave the confirm state alone.
\<close>

theorem GetAckOnChannel_returned:
  assumes range: "unat ch < length (m_channels s)"
    and none: "unconsumed_ack (m_channels s ! unat ch) = 0"
    and wait: "get_method [ch] PUBLISH_ACK s = Some (Inr response, s1)"
    and return: "payload response = Method (Basic_Return code text exch rk)"
    and content: "ReadContent next_frame ch s1 = Some (Inr message, s2)"
    and ack: "get_method [ch] BASIC_ACK s2 = Some (Inr trailing, s3)"
    and keeps: "keeps_confirm_state ch (get_method [ch] PUBLISH_ACK)"
      "keeps_confirm_state ch (next_frame [ch])"
      "keeps_confirm_state ch (get_method [ch] BASIC_ACK)"
  shows "GetAckOnChannel get_method next_frame ch s =
           Some (Inl (MessageReturnedException message (ucast code) text exch rk), released ch s3) \<and>
         confirm_state ch (released ch s3) = confirm_state ch s \<and>
         in_pool ch (released ch s3) \<and> buffers_offered ch s3 (released ch s3)"
proof -
  from keeps_confirm_stateD [of ch "get_method [ch] PUBLISH_ACK" s response s1] keeps(1) wait range
  have range1: "unat ch < length (m_channels s1)"
    and kept1: "confirm_state ch s1 = confirm_state ch s"
    by simp_all
  have "keeps_confirm_state ch (ReadContent next_frame ch)"
    using keeps(2) by (rule ReadContent_keeps)
  from keeps_confirm_stateD [of ch "ReadContent next_frame ch" s1 message s2] this content range1
  have range2: "unat ch < length (m_channels s2)"
    and kept2: "confirm_state ch s2 = confirm_state ch s1"
    by simp_all
  from keeps_confirm_stateD [of ch "get_method [ch] BASIC_ACK" s2 trailing s3] keeps(3) ack range2
  have range3: "unat ch < length (m_channels s3)"
    and kept3: "confirm_state ch s3 = confirm_state ch s2"
    by simp_all
  have "GetAckOnChannel get_method next_frame ch s =
      Some (Inl (MessageReturnedException message (ucast code) text exch rk), released ch s3)"
    using range none wait return content ack range3 by (rule GetAckOnChannel_return)
  moreover have "confirm_state ch (released ch s3) = confirm_state ch s"
    using range3 kept1 kept2 kept3 by (simp add: released_confirm_state)
  moreover have "in_pool ch (released ch s3)"
    using range3 by (rule released_in_pool)
  moreover have "buffers_offered ch s3 (released ch s3)"
    by (rule released_offered)
  ultimately show ?thesis by simp
qed

theorem GetAckOnChannel_returned_witness:
  "unat (1 :: amqp_channel_t) <
     length (m_channels (queued [return_frame, header_frame, body_frame_abc, body_frame_de, ack_frame])) \<and>
   GetAckOnChannel queued_method no_frame 1
       (queued [return_frame, header_frame, body_frame_abc, body_frame_de, ack_frame]) =
     Some (Inl (MessageReturnedException
                  (SetMessageProperties (BasicMessage_Create\<lparr>Body := ''abcde''\<rparr>) example_properties)
                  312 ''NO_ROUTE'' ''ex'' ''rk''),
           released 1 (queued [])) \<and>
   confirm_state 1 (released 1 (queued [])) =
     confirm_state 1 (queued [return_frame, header_frame, body_frame_abc, body_frame_de, ack_frame]) \<and>
   confirm_state 1 (released 1 (queued [])) = (0, 0) \<and>
   in_pool 1 (released 1 (queued []))"
proof -
  let ?s = "queued [return_frame, header_frame, body_frame_abc, body_frame_de, ack_frame]"
  have h1: "unat (1 :: amqp_channel_t) < length (m_channels ?s)"
    by (simp add: queued_simps example_pool_def)
  have h2: "unconsumed_ack (m_channels ?s ! unat (1 :: amqp_channel_t)) = 0"
    by (simp add: queued_simps example_pool_def new_channel_state_def)
  have h3: "queued_method [1] PUBLISH_ACK ?s =
      Some (Inr return_frame, queued [header_frame, body_frame_abc, body_frame_de, ack_frame])"
    by (rule queued_method_first [where m = "Basic_Return 312 ''NO_ROUTE'' ''ex'' ''rk''"])
       (simp_all add: return_frame_def PUBLISH_ACK_def)
  have h4: "payload return_frame = Method (Basic_Return 312 ''NO_ROUTE'' ''ex'' ''rk'')"
    by (simp add: return_frame_def)
  have h6: "queued_method [1] BASIC_ACK (queued [ack_frame]) = Some (Inr ack_frame, queued [])"
    by (rule queued_method_first [where m = "Basic_Ack 3 True"])
       (simp_all add: ack_frame_def BASIC_ACK_def)
  have c0: "confirm_state 1 ?s = (0, 0)"
    by (simp add: confirm_state_def queued_simps example_pool_def new_channel_state_def)
  from GetAckOnChannel_returned [where get_method = queued_method and next_frame = no_frame
      and ch = 1, OF h1 h2 h3 h4 ReadContent_example h6 queued_method_keeps
      no_frame_keeps queued_method_keeps] h1 c0
  show ?thesis by simp
qed

text \<open>
  C2.  The specification has every exit of \<open>GetAckOnChannel\<close> release the channel,
  the exit through a banked acknowledgement included.  On channel 1 with one banked
  acknowledgement, in use,
  \<open>GetAckOnChannel\<close> returns at once: the count drops to 0, the slot stays \<open>Used\<close>,
  the channel returned last stays 0, and the transport is not offered the buffers of
  the channel although no frame of it is queued.  The three exits after a wait do
  release the channel (\<open>GetAckOnChannel_ack\<close>, \<open>GetAckOnChannel_nack\<close>,
  \<open>GetAckOnChannel_return\<close> with \<open>released_in_pool\<close> and \<open>released_offered\<close>).
\<close>

theorem GetAckOnChannel_banked_ack_keeps_channel:
  "GetAckOnChannel queued_method no_frame 1 banked_pool = Some (Inr (), banked_pool_after) \<and>
   confirm_state 1 banked_pool = (3, 1) \<and> confirm_state 1 banked_pool_after = (3, 0) \<and>
   availability (m_channels banked_pool_after ! 1) = CS_Used \<and>
   m_last_used_channel banked_pool_after = 0 \<and>
   m_frame_queue banked_pool_after = [] \<and>
   released_channels (m_connection banked_pool_after) = [] \<and>
   \<not> in_pool 1 banked_pool_after \<and>
   \<not> buffers_offered 1 banked_pool banked_pool_after"
  by (simp add: GetAckOnChannel_def banked_pool_after_def banked_pool_def example_pool_def
        new_channel_state_def update_state_def in_pool_def buffers_offered_def
        example_connection_def confirm_state_def)

end
